theory Spec2Isabelle
  imports Complex_Main
begin

section \<open>The ray tracing fragment shader\<close>

text \<open>
  The shader \<open>raytraceFS\<close> is GLSL. The quadratic that \<open>IntersectRay\<close> solves for
  each sphere is modelled in floating point: every operation rounds its exact result
  with the rounding of the platform, a parameter, and follows IEEE 754 where a result
  is an infinity or a NaN. From the accepted \<open>t\<close> on (the fields of the hit, shading,
  reflection) a \<open>float\<close> is a \<open>real\<close> and the operations are exact. Two operations
  of the shading have results the language leaves open, \<open>normalize\<close> of the zero
  vector and \<open>pow(x, y)\<close> for \<open>x < 0\<close> or for \<open>x = 0\<close> and \<open>y \<le> 0\<close>; the model
  takes each from a parameter instead of from a convention of the logic. The
  parameters are real, so a colour with a NaN in it, which is what such a platform
  returns when a light sits exactly at the shaded point, is outside the model of the
  shading.
\<close>

subsection \<open>Vectors\<close>

text \<open>\<open>vec3\<close>; the components \<open>.x .y .z\<close> are also read as \<open>.r .g .b\<close>.\<close>

datatype vec3 = Vec3 (vec_x: real) (vec_y: real) (vec_z: real)

instantiation vec3 :: "{zero, plus, minus, uminus, times}"
begin

definition zero_vec3 :: vec3 where
  "zero_vec3 = Vec3 0 0 0"

definition plus_vec3 :: "vec3 \<Rightarrow> vec3 \<Rightarrow> vec3" where
  "plus_vec3 u v = Vec3 (vec_x u + vec_x v) (vec_y u + vec_y v) (vec_z u + vec_z v)"

definition minus_vec3 :: "vec3 \<Rightarrow> vec3 \<Rightarrow> vec3" where
  "minus_vec3 u v = Vec3 (vec_x u - vec_x v) (vec_y u - vec_y v) (vec_z u - vec_z v)"

definition uminus_vec3 :: "vec3 \<Rightarrow> vec3" where
  "uminus_vec3 u = Vec3 (- vec_x u) (- vec_y u) (- vec_z u)"

text \<open>\<open>*\<close> between two vectors is component-wise in GLSL.\<close>

definition times_vec3 :: "vec3 \<Rightarrow> vec3 \<Rightarrow> vec3" where
  "times_vec3 u v = Vec3 (vec_x u * vec_x v) (vec_y u * vec_y v) (vec_z u * vec_z v)"

instance ..

end

text \<open>\<open>float * vec3\<close> and \<open>vec3 * float\<close>.\<close>

definition scale :: "real \<Rightarrow> vec3 \<Rightarrow> vec3" where
  "scale k v = Vec3 (k * vec_x v) (k * vec_y v) (k * vec_z v)"

definition dot :: "vec3 \<Rightarrow> vec3 \<Rightarrow> real" where
  "dot u v = vec_x u * vec_x v + vec_y u * vec_y v + vec_z u * vec_z v"

definition length_vec :: "vec3 \<Rightarrow> real" where
  "length_vec v = sqrt (dot v v)"

text \<open>The swizzle \<open>.xzy\<close>.\<close>

definition xzy :: "vec3 \<Rightarrow> vec3" where
  "xzy v = Vec3 (vec_x v) (vec_z v) (vec_y v)"

text \<open>\<open>reflect(I, N) = I - 2 * dot(N, I) * N\<close>.\<close>

definition reflect :: "vec3 \<Rightarrow> vec3 \<Rightarrow> vec3" where
  "reflect i nrm = i - scale (2 * dot nrm i) nrm"

text \<open>Every component is at least zero.\<close>

definition nonneg :: "vec3 \<Rightarrow> bool" where
  "nonneg v = (0 \<le> vec_x v \<and> 0 \<le> vec_y v \<and> 0 \<le> vec_z v)"

subsection \<open>The structs\<close>

text \<open>
  Field names are the shader's, except that the fields of \<open>HitInfo\<close> carry the prefix
  \<open>hit_\<close> (\<open>hit.t\<close> is \<open>hit_t\<close>) and the exponent \<open>n\<close> of a material is \<open>n_exp\<close>,
  so that no field takes the name of a variable or of a field of another struct.
\<close>

record Ray =
  pos :: vec3
  dir :: vec3

record Material =
  k_d :: vec3
  k_s :: vec3
  n_exp :: real

record Sphere =
  center :: vec3
  radius :: real
  mtl :: Material

record Light =
  position :: vec3
  intensity :: vec3

record HitInfo =
  hit_t :: real
  hit_position :: vec3
  hit_normal :: vec3
  hit_mtl :: Material


text \<open>
  A \<open>float\<close> inside the solver: a finite value, an infinity or a NaN. The sign of a
  zero is not kept; the one divisor of the solver, \<open>2.0 * a\<close>, is a sum of squares and
  never a negative zero.
\<close>

datatype fl = Fin real | PInf | NInf | NaN

text \<open>
  The uniforms (\<open>spheres\<close>, \<open>lights\<close>, \<open>envMap\<close>, \<open>bounceLimit\<close>), the macro
  \<open>MAX_BOUNCES\<close>, which the shader source does not define, and the platform:
  \<open>rounding\<close> takes the exact result of an operation on finite floats to the float
  the operation returns (an infinity when it overflows), \<open>normalize_zero\<close> and
  \<open>pow_undefined\<close> are what it returns where the language leaves the result open.
  \<open>NUM_SPHERES\<close> and \<open>NUM_LIGHTS\<close> are the lengths of the two lists. \<open>envMap\<close> is
  \<open>textureCube(envMap, \<cdot>).rgb\<close>. \<open>uninit\<close> is the content of a local \<open>HitInfo\<close>
  that is declared and not initialised; the shader never reads a field of it before
  \<open>IntersectRay\<close> has written that field.
\<close>

record shader =
  spheres :: "Sphere list"
  lights :: "Light list"
  envMap :: "vec3 \<Rightarrow> vec3"
  bounceLimit :: int
  MAX_BOUNCES :: int
  rounding :: "real \<Rightarrow> fl"
  normalize_zero :: vec3
  pow_undefined :: "real \<Rightarrow> real \<Rightarrow> real"
  uninit :: HitInfo

subsection \<open>Floating-point operations\<close>

text \<open>
  Negation, addition, subtraction, multiplication, division, square root and the two
  comparisons with \<open>0.0\<close>, as IEEE 754 has them: a finite result is the rounded exact
  one, \<open>\<infinity> - \<infinity>\<close>, \<open>0 * \<infinity>\<close>, \<open>0 / 0\<close>, \<open>\<infinity> / \<infinity>\<close> and the square root of a
  negative number are NaN, a NaN operand gives NaN, and a comparison with NaN is false.
\<close>

fun fl_neg :: "fl \<Rightarrow> fl" where
  "fl_neg (Fin x) = Fin (- x)"
| "fl_neg PInf = NInf"
| "fl_neg NInf = PInf"
| "fl_neg NaN = NaN"

fun fl_negative :: "fl \<Rightarrow> bool" where
  "fl_negative (Fin x) = (x < 0)"
| "fl_negative NInf = True"
| "fl_negative PInf = False"
| "fl_negative NaN = False"

fun fl_add :: "shader \<Rightarrow> fl \<Rightarrow> fl \<Rightarrow> fl" where
  "fl_add S (Fin x) (Fin y) = rounding S (x + y)"
| "fl_add S NaN b = NaN"
| "fl_add S a NaN = NaN"
| "fl_add S PInf NInf = NaN"
| "fl_add S NInf PInf = NaN"
| "fl_add S PInf b = PInf"
| "fl_add S NInf b = NInf"
| "fl_add S a PInf = PInf"
| "fl_add S a NInf = NInf"

definition fl_sub :: "shader \<Rightarrow> fl \<Rightarrow> fl \<Rightarrow> fl" where
  "fl_sub S a b = fl_add S a (fl_neg b)"

fun fl_mul :: "shader \<Rightarrow> fl \<Rightarrow> fl \<Rightarrow> fl" where
  "fl_mul S (Fin x) (Fin y) = rounding S (x * y)"
| "fl_mul S NaN b = NaN"
| "fl_mul S a NaN = NaN"
| "fl_mul S a b =
     (if a = Fin 0 \<or> b = Fin 0 then NaN
      else if fl_negative a = fl_negative b then PInf else NInf)"

fun fl_div :: "shader \<Rightarrow> fl \<Rightarrow> fl \<Rightarrow> fl" where
  "fl_div S (Fin x) (Fin y) =
     (if y = 0 then (if x = 0 then NaN else if 0 < x then PInf else NInf)
      else rounding S (x / y))"
| "fl_div S NaN b = NaN"
| "fl_div S a NaN = NaN"
| "fl_div S (Fin x) b = Fin 0"
| "fl_div S a (Fin y) = (if fl_negative a = (y < 0) then PInf else NInf)"
| "fl_div S a b = NaN"

fun fl_sqrt :: "shader \<Rightarrow> fl \<Rightarrow> fl" where
  "fl_sqrt S (Fin x) = (if x < 0 then NaN else rounding S (sqrt x))"
| "fl_sqrt S PInf = PInf"
| "fl_sqrt S NInf = NaN"
| "fl_sqrt S NaN = NaN"

text \<open>\<open>a > 0.0\<close> and \<open>a >= 0.0\<close>.\<close>

fun fl_pos :: "fl \<Rightarrow> bool" where
  "fl_pos (Fin x) = (0 < x)"
| "fl_pos PInf = True"
| "fl_pos NInf = False"
| "fl_pos NaN = False"

fun fl_nonneg :: "fl \<Rightarrow> bool" where
  "fl_nonneg (Fin x) = (0 \<le> x)"
| "fl_nonneg PInf = True"
| "fl_nonneg NInf = False"
| "fl_nonneg NaN = False"

text \<open>\<open>a < h\<close> for a finite \<open>h\<close>.\<close>

fun fl_below :: "fl \<Rightarrow> real \<Rightarrow> bool" where
  "fl_below (Fin x) h = (x < h)"
| "fl_below NInf h = True"
| "fl_below PInf h = False"
| "fl_below NaN h = False"

text \<open>
  A \<open>vec3\<close> of the solver, and the two vector operations it uses: the component-wise
  difference and \<open>dot\<close>, the sum of the three products taken from left to right.
\<close>

type_synonym fl3 = "fl \<times> fl \<times> fl"

definition fl_vec :: "vec3 \<Rightarrow> fl3" where
  "fl_vec v = (Fin (vec_x v), Fin (vec_y v), Fin (vec_z v))"

fun fl_sub3 :: "shader \<Rightarrow> fl3 \<Rightarrow> fl3 \<Rightarrow> fl3" where
  "fl_sub3 S (a1, a2, a3) (b1, b2, b3) = (fl_sub S a1 b1, fl_sub S a2 b2, fl_sub S a3 b3)"

fun fl_dot :: "shader \<Rightarrow> fl3 \<Rightarrow> fl3 \<Rightarrow> fl" where
  "fl_dot S (a1, a2, a3) (b1, b2, b3) =
     fl_add S (fl_add S (fl_mul S a1 b1) (fl_mul S a2 b2)) (fl_mul S a3 b3)"

subsection \<open>Operations with open results\<close>

text \<open>
  \<open>normalize\<close> and \<open>pow\<close> of the shading; \<open>length\<close> and \<open>normalize\<close> are named
  \<open>length_vec\<close> and \<open>normalize_vec\<close> here. Where the language defines the result
  it is the mathematical one.
\<close>

definition normalize_vec :: "shader \<Rightarrow> vec3 \<Rightarrow> vec3" where
  "normalize_vec S v = (if length_vec v = 0 then normalize_zero S else scale (1 / length_vec v) v)"

definition pow :: "shader \<Rightarrow> real \<Rightarrow> real \<Rightarrow> real" where
  "pow S a b = (if a < 0 \<or> (a = 0 \<and> b \<le> 0) then pow_undefined S a b else a powr b)"

subsection \<open>IntersectRay\<close>

text \<open>
  The coefficients of the quadratic for one sphere, its discriminant and its two
  roots, each as the shader computes it: \<open>oc\<close>, \<open>a\<close>, \<open>b\<close>, \<open>c\<close>,
  \<open>discriminant = b * b - 4.0 * a * c\<close>, \<open>sqrt_discriminant\<close>, \<open>t1\<close> and \<open>t2\<close>.
\<close>

definition quad_oc :: "shader \<Rightarrow> Ray \<Rightarrow> Sphere \<Rightarrow> fl3" where
  "quad_oc S ray s = fl_sub3 S (fl_vec (pos ray)) (fl_vec (center s))"

definition quad_a :: "shader \<Rightarrow> Ray \<Rightarrow> fl" where
  "quad_a S ray = fl_dot S (fl_vec (dir ray)) (fl_vec (dir ray))"

definition quad_b :: "shader \<Rightarrow> Ray \<Rightarrow> Sphere \<Rightarrow> fl" where
  "quad_b S ray s = fl_mul S (Fin 2) (fl_dot S (quad_oc S ray s) (fl_vec (dir ray)))"

definition quad_c :: "shader \<Rightarrow> Ray \<Rightarrow> Sphere \<Rightarrow> fl" where
  "quad_c S ray s =
     fl_sub S (fl_dot S (quad_oc S ray s) (quad_oc S ray s))
       (fl_mul S (Fin (radius s)) (Fin (radius s)))"

definition discriminant :: "shader \<Rightarrow> Ray \<Rightarrow> Sphere \<Rightarrow> fl" where
  "discriminant S ray s =
     fl_sub S (fl_mul S (quad_b S ray s) (quad_b S ray s))
       (fl_mul S (fl_mul S (Fin 4) (quad_a S ray)) (quad_c S ray s))"

definition sqrt_discriminant :: "shader \<Rightarrow> Ray \<Rightarrow> Sphere \<Rightarrow> fl" where
  "sqrt_discriminant S ray s = fl_sqrt S (discriminant S ray s)"

definition root_t1 :: "shader \<Rightarrow> Ray \<Rightarrow> Sphere \<Rightarrow> fl" where
  "root_t1 S ray s =
     fl_div S (fl_sub S (fl_neg (quad_b S ray s)) (sqrt_discriminant S ray s))
       (fl_mul S (Fin 2) (quad_a S ray))"

definition root_t2 :: "shader \<Rightarrow> Ray \<Rightarrow> Sphere \<Rightarrow> fl" where
  "root_t2 S ray s =
     fl_div S (fl_add S (fl_neg (quad_b S ray s)) (sqrt_discriminant S ray s))
       (fl_mul S (Fin 2) (quad_a S ray))"

text \<open>
  The \<open>t\<close> of one sphere: none when \<open>discriminant >= 0.0\<close> is false, else
  \<open>(t1 > 0.0) ? t1 : t2\<close>.
\<close>

definition solve :: "shader \<Rightarrow> Ray \<Rightarrow> Sphere \<Rightarrow> fl option" where
  "solve S ray s =
     (if fl_nonneg (discriminant S ray s)
      then Some (if fl_pos (root_t1 S ray s) then root_t1 S ray s else root_t2 S ray s)
      else None)"

text \<open>
  The candidate of one sphere is that \<open>t\<close> when it is finite. The test
  \<open>t > 0.0 && t < hit.t\<close> is against a finite \<open>hit.t\<close>, at most \<open>1e30\<close>, and a
  \<open>t\<close> that is an infinity or a NaN fails it, so such a \<open>t\<close> is no candidate.
\<close>

definition candidate :: "shader \<Rightarrow> Ray \<Rightarrow> Sphere \<Rightarrow> real option" where
  "candidate S ray s = (case solve S ray s of Some (Fin tc) \<Rightarrow> Some tc | _ \<Rightarrow> None)"

text \<open>The record written when sphere \<open>s\<close> is accepted at distance \<open>tc\<close>.\<close>

definition record_hit :: "shader \<Rightarrow> Ray \<Rightarrow> Sphere \<Rightarrow> real \<Rightarrow> HitInfo" where
  "record_hit S ray s tc =
     (let p = pos ray + scale tc (dir ray)
      in \<lparr> hit_t = tc, hit_position = p, hit_normal = normalize_vec S (p - center s),
           hit_mtl = mtl s \<rparr>)"

text \<open>One iteration of the loop over the spheres; the state is \<open>(hit, foundHit)\<close>.\<close>

definition sphere_step :: "shader \<Rightarrow> Ray \<Rightarrow> HitInfo \<times> bool \<Rightarrow> Sphere \<Rightarrow> HitInfo \<times> bool" where
  "sphere_step S ray st s =
     (case candidate S ray s of
        None \<Rightarrow> st
      | Some tc \<Rightarrow>
          if tc > 0 \<and> tc < hit_t (fst st) then (record_hit S ray s tc, True) else st)"

text \<open>\<open>1e30\<close>.\<close>

definition sentinel :: real where
  "sentinel = 10 ^ 30"

text \<open>
  \<open>IntersectRay(inout hit, ray)\<close>: the result is the \<open>hit\<close> after the call and the
  returned \<open>foundHit\<close>.
\<close>

definition IntersectRay :: "shader \<Rightarrow> HitInfo \<Rightarrow> Ray \<Rightarrow> HitInfo \<times> bool" where
  "IntersectRay S hit ray =
     foldl (sphere_step S ray) (hit\<lparr>hit_t := sentinel\<rparr>, False) (spheres S)"

subsection \<open>Shade\<close>

text \<open>The shadow ray of a light, from the shaded point offset along the normal.\<close>

definition shadowRay :: "shader \<Rightarrow> vec3 \<Rightarrow> vec3 \<Rightarrow> Light \<Rightarrow> Ray" where
  "shadowRay S p nrm l =
     \<lparr> pos = p + scale 0.001 nrm, dir = normalize_vec S (Light.position l - p) \<rparr>"

definition distanceToLight :: "vec3 \<Rightarrow> Light \<Rightarrow> real" where
  "distanceToLight p l = length_vec (Light.position l - p)"

definition lightDir :: "shader \<Rightarrow> vec3 \<Rightarrow> Light \<Rightarrow> vec3" where
  "lightDir S p l = normalize_vec S (Light.position l - p)"

definition halfVector :: "shader \<Rightarrow> vec3 \<Rightarrow> vec3 \<Rightarrow> Light \<Rightarrow> vec3" where
  "halfVector S p view l = normalize_vec S (lightDir S p l + view)"

text \<open>The Lambert term and the Blinn-Phong term of one light.\<close>

definition diffuse :: "shader \<Rightarrow> Material \<Rightarrow> vec3 \<Rightarrow> vec3 \<Rightarrow> Light \<Rightarrow> vec3" where
  "diffuse S m p nrm l =
     (let NdotL = max (dot nrm (lightDir S p l)) 0
      in scale NdotL (k_d m * intensity l))"

definition specular :: "shader \<Rightarrow> Material \<Rightarrow> vec3 \<Rightarrow> vec3 \<Rightarrow> vec3 \<Rightarrow> Light \<Rightarrow> vec3" where
  "specular S m p nrm view l =
     (let NdotH = max (dot nrm (halfVector S p view l)) 0
      in scale (pow S NdotH (n_exp m)) (k_s m * intensity l))"

text \<open>
  The body of the loop over the lights for one light: \<open>None\<close> is the \<open>continue\<close> of
  a light in shadow, \<open>Some c\<close> the colour \<open>diffuse + specular\<close> added to \<open>color\<close>.
\<close>

definition shade_light ::
  "shader \<Rightarrow> Material \<Rightarrow> vec3 \<Rightarrow> vec3 \<Rightarrow> vec3 \<Rightarrow> Light \<Rightarrow> vec3 option" where
  "shade_light S m p nrm view l =
     (let shadow = IntersectRay S (uninit S) (shadowRay S p nrm l);
          shadowHit = fst shadow;
          inShadow = snd shadow
      in if inShadow \<and> hit_t shadowHit < distanceToLight p l then None
         else Some (diffuse S m p nrm l + specular S m p nrm view l))"

definition light_step ::
  "shader \<Rightarrow> Material \<Rightarrow> vec3 \<Rightarrow> vec3 \<Rightarrow> vec3 \<Rightarrow> vec3 \<Rightarrow> Light \<Rightarrow> vec3" where
  "light_step S m p nrm view color l =
     (case shade_light S m p nrm view l of None \<Rightarrow> color | Some c \<Rightarrow> color + c)"

definition Shade :: "shader \<Rightarrow> Material \<Rightarrow> vec3 \<Rightarrow> vec3 \<Rightarrow> vec3 \<Rightarrow> vec3" where
  "Shade S m p nrm view = foldl (light_step S m p nrm view) (Vec3 0 0 0) (lights S)"

subsection \<open>RayTracer\<close>

text \<open>The reflection ray \<open>r\<close> built from the current ray and hit.\<close>

definition reflection_ray :: "Ray \<Rightarrow> HitInfo \<Rightarrow> Ray" where
  "reflection_ray ray hit =
     \<lparr> pos = hit_position hit + scale 0.001 (hit_normal hit),
       dir = reflect (dir ray) (hit_normal hit) \<rparr>"

text \<open>The sum \<open>hit.mtl.k_s.r + hit.mtl.k_s.g + hit.mtl.k_s.b\<close> tested by the loop.\<close>

definition channel_sum :: "vec3 \<Rightarrow> real" where
  "channel_sum v = vec_x v + vec_y v + vec_z v"

text \<open>
  The reflection loop, entered with the value of \<open>bounce\<close> and the loop variables
  \<open>ray\<close>, \<open>hit\<close>, \<open>k_s\<close> (here \<open>ks\<close>) and \<open>clr\<close>. It returns the final \<open>clr\<close> and
  the number of iterations that went past the two \<open>break\<close> tests at the head of the
  body, that is, the number of reflection rays traced. The shader has no such
  counter; it is there for the statements about the number of bounces.
\<close>

function reflect_loop ::
  "shader \<Rightarrow> int \<Rightarrow> Ray \<Rightarrow> HitInfo \<Rightarrow> vec3 \<Rightarrow> vec3 \<Rightarrow> vec3 \<times> nat" where
  "reflect_loop S bounce ray hit ks clr =
     (if bounce < MAX_BOUNCES S then
        if bounce \<ge> bounceLimit S then (clr, 0)
        else if channel_sum (k_s (hit_mtl hit)) \<le> 0 then (clr, 0)
        else
          let r = reflection_ray ray hit;
              reflected = IntersectRay S (uninit S) r;
              h = fst reflected
          in if snd reflected then
               let reflectedView = normalize_vec S (- dir r);
                   reflectedColor =
                     Shade S (hit_mtl h) (hit_position h) (hit_normal h) reflectedView
               in apsnd Suc
                    (reflect_loop S (bounce + 1) r h (ks * k_s (hit_mtl h))
                       (clr + ks * reflectedColor))
             else (clr + ks * envMap S (xzy (dir r)), 1)
      else (clr, 0))"
  by pat_completeness auto
termination
  by (relation "measure (\<lambda>(S, bounce, ray, hit, ks, clr). nat (MAX_BOUNCES S - bounce))") auto

text \<open>\<open>vec4( clr, alpha )\<close>.\<close>

record vec4 =
  rgb :: vec3
  alpha :: real

definition RayTracer :: "shader \<Rightarrow> Ray \<Rightarrow> vec4" where
  "RayTracer S ray =
     (let primary = IntersectRay S (uninit S) ray;
          hit = fst primary
      in if snd primary then
           let view = normalize_vec S (- dir ray);
               clr = Shade S (hit_mtl hit) (hit_position hit) (hit_normal hit) view
           in \<lparr> rgb = fst (reflect_loop S 0 ray hit (k_s (hit_mtl hit)) clr), alpha = 1 \<rparr>
         else \<lparr> rgb = envMap S (xzy (dir ray)), alpha = 0 \<rparr>)"


section \<open>The quadratic over the reals\<close>

text \<open>
  A distance \<open>\<tau>\<close> along the ray is an intersection distance with a sphere when the
  point \<open>ray.pos + \<tau> * ray.dir\<close> lies on its surface. This is the geometric notion
  the intersection routine is measured against; the shader itself never computes it.
\<close>

definition on_sphere :: "Ray \<Rightarrow> Sphere \<Rightarrow> real \<Rightarrow> bool" where
  "on_sphere ray s \<tau> =
     (dot (pos ray + scale \<tau> (dir ray) - center s) (pos ray + scale \<tau> (dir ray) - center s)
        = radius s * radius s)"

text \<open>
  The coefficients, the discriminant and the roots without rounding, and the
  candidate they give. These are not what the shader computes; they are what its
  results are compared with.
\<close>

definition exact_a :: "Ray \<Rightarrow> real" where
  "exact_a ray = dot (dir ray) (dir ray)"

definition exact_b :: "Ray \<Rightarrow> Sphere \<Rightarrow> real" where
  "exact_b ray s = 2 * dot (pos ray - center s) (dir ray)"

definition exact_c :: "Ray \<Rightarrow> Sphere \<Rightarrow> real" where
  "exact_c ray s = dot (pos ray - center s) (pos ray - center s) - radius s * radius s"

definition exact_discriminant :: "Ray \<Rightarrow> Sphere \<Rightarrow> real" where
  "exact_discriminant ray s = exact_b ray s * exact_b ray s - 4 * exact_a ray * exact_c ray s"

definition exact_t1 :: "Ray \<Rightarrow> Sphere \<Rightarrow> real" where
  "exact_t1 ray s = (- exact_b ray s - sqrt (exact_discriminant ray s)) / (2 * exact_a ray)"

definition exact_t2 :: "Ray \<Rightarrow> Sphere \<Rightarrow> real" where
  "exact_t2 ray s = (- exact_b ray s + sqrt (exact_discriminant ray s)) / (2 * exact_a ray)"

definition exact_candidate :: "Ray \<Rightarrow> Sphere \<Rightarrow> real option" where
  "exact_candidate ray s =
     (if exact_discriminant ray s \<ge> 0
      then Some (if exact_t1 ray s > 0 then exact_t1 ray s else exact_t2 ray s)
      else None)"

text \<open>
  The exact value of every operation the solver performs for one sphere, in the order
  of the source: the three differences of \<open>oc\<close>, the products and sums of the three
  \<open>dot\<close>s, \<open>b\<close>, \<open>radius * radius\<close>, \<open>c\<close>, \<open>b * b\<close>, \<open>4.0 * a\<close>,
  \<open>4.0 * a * c\<close>, the discriminant and, when it is not negative, its square root,
  the two numerators, \<open>2.0 * a\<close> and the two roots. The solver is evaluated without
  rounding error when the platform returns each of these values as it is, that is,
  when each of them is a float.
\<close>

definition dot_values :: "vec3 \<Rightarrow> vec3 \<Rightarrow> real list" where
  "dot_values u v =
     [vec_x u * vec_x v, vec_y u * vec_y v, vec_z u * vec_z v,
      vec_x u * vec_x v + vec_y u * vec_y v, dot u v]"

definition solver_values :: "Ray \<Rightarrow> Sphere \<Rightarrow> real list" where
  "solver_values ray s =
     (let oc = pos ray - center s
      in [vec_x oc, vec_y oc, vec_z oc] @
         dot_values (dir ray) (dir ray) @
         dot_values oc (dir ray) @
         [exact_b ray s] @
         dot_values oc oc @
         [radius s * radius s, exact_c ray s, exact_b ray s * exact_b ray s,
          4 * exact_a ray, 4 * exact_a ray * exact_c ray s, exact_discriminant ray s] @
         (if exact_discriminant ray s \<ge> 0
          then [sqrt (exact_discriminant ray s),
                - exact_b ray s - sqrt (exact_discriminant ray s),
                2 * exact_a ray, exact_t1 ray s,
                - exact_b ray s + sqrt (exact_discriminant ray s), exact_t2 ray s]
          else []))"

definition unrounded :: "shader \<Rightarrow> real list \<Rightarrow> bool" where
  "unrounded S xs = list_all (\<lambda>x. rounding S x = Fin x) xs"

section \<open>IEEE 754 binary32\<close>

text \<open>
  Rounding to nearest, ties to even, with 24 bits of precision, the least exponent
  \<open>-126\<close> (below it the spacing stays \<open>2^-149\<close>) and overflow to an infinity from
  \<open>2^128\<close> on.
\<close>

definition round_even :: "real \<Rightarrow> int" where
  "round_even y =
     (let f = \<lfloor>y\<rfloor>
      in if y - of_int f < 1 / 2 then f
         else if 1 / 2 < y - of_int f then f + 1
         else if even f then f else f + 1)"

definition binary32 :: "real \<Rightarrow> fl" where
  "binary32 x =
     (if x = 0 then Fin 0
      else
        let e = max \<lfloor>log 2 \<bar>x\<bar>\<rfloor> (- 126);
            u = 2 powr (of_int e - 23);
            y = u * of_int (round_even (x / u))
        in if \<bar>y\<bar> < 2 ^ 128 then Fin y else if 0 < x then PInf else NInf)"

section \<open>Scenes and rays used as examples\<close>

text \<open>
  One red matte unit sphere at the origin under a light at \<open>(0, 5, 0)\<close>, looked at
  from \<open>(0, 0, 5)\<close> down the z axis. The platform of this scene and of the
  two-mirror scene below returns every result as it is, without rounding, and \<open>1\<close>
  where the language leaves \<open>pow\<close> open.
\<close>

definition matte_red :: Material where
  "matte_red = \<lparr> k_d = Vec3 1 0 0, k_s = Vec3 0 0 0, n_exp = 10 \<rparr>"

definition gloss_0 :: Material where
  "gloss_0 = \<lparr> k_d = Vec3 0 0 0, k_s = Vec3 1 1 1, n_exp = 0 \<rparr>"

definition gloss_10 :: Material where
  "gloss_10 = \<lparr> k_d = Vec3 1 1 1, k_s = Vec3 1 1 1, n_exp = 10 \<rparr>"

definition unit_sphere :: Sphere where
  "unit_sphere = \<lparr> center = Vec3 0 0 0, radius = 1, mtl = matte_red \<rparr>"

definition top_light :: Light where
  "top_light = \<lparr> position = Vec3 0 5 0, intensity = Vec3 1 1 1 \<rparr>"

definition blank_hit :: HitInfo where
  "blank_hit = \<lparr> hit_t = 0, hit_position = Vec3 0 0 0, hit_normal = Vec3 0 0 0,
                  hit_mtl = \<lparr> k_d = Vec3 0 0 0, k_s = Vec3 0 0 0, n_exp = 0 \<rparr> \<rparr>"

definition scene_one :: shader where
  "scene_one = \<lparr> spheres = [unit_sphere], lights = [top_light],
                  envMap = (\<lambda>v. Vec3 (1/2) (1/2) (1/2)), bounceLimit = 0, MAX_BOUNCES = 5,
                  rounding = Fin, normalize_zero = Vec3 0 0 0,
                  pow_undefined = (\<lambda>a b. 1), uninit = blank_hit \<rparr>"

definition front_ray :: Ray where
  "front_ray = \<lparr> pos = Vec3 0 0 5, dir = Vec3 0 0 (- 1) \<rparr>"

definition away_ray :: Ray where
  "away_ray = \<lparr> pos = Vec3 0 0 5, dir = Vec3 0 0 1 \<rparr>"


text \<open>
  Two lights on the z axis for shading the point \<open>(0, 0, 3)\<close> with normal
  \<open>(0, 0, 1)\<close>, both behind the surface: one in front of the sphere, one beyond it;
  and a view direction off to the side.
\<close>

definition back_light :: Light where
  "back_light = \<lparr> position = Vec3 0 0 2, intensity = Vec3 1 1 1 \<rparr>"

definition hidden_light :: Light where
  "hidden_light = \<lparr> position = Vec3 0 0 (- 5), intensity = Vec3 1 1 1 \<rparr>"

definition side_view :: vec3 where
  "side_view = Vec3 (24 / 25) 0 (7 / 25)"

text \<open>
  Two mirrors facing each other on the z axis, the first reflecting red only and the
  second green only, with a bounce limit of two.
\<close>

definition mirror_a :: Sphere where
  "mirror_a = \<lparr> center = Vec3 0 0 0, radius = 1,
                 mtl = \<lparr> k_d = Vec3 0 0 0, k_s = Vec3 1 0 0, n_exp = 10 \<rparr> \<rparr>"

definition mirror_b :: Sphere where
  "mirror_b = \<lparr> center = Vec3 0 0 10, radius = 1,
                 mtl = \<lparr> k_d = Vec3 0 0 0, k_s = Vec3 0 1 0, n_exp = 10 \<rparr> \<rparr>"

definition scene_two :: shader where
  "scene_two = \<lparr> spheres = [mirror_a, mirror_b], lights = [top_light],
                  envMap = (\<lambda>v. Vec3 (1/2) (1/2) (1/2)), bounceLimit = 2, MAX_BOUNCES = 5,
                  rounding = Fin, normalize_zero = Vec3 0 0 0,
                  pow_undefined = (\<lambda>a b. 1), uninit = blank_hit \<rparr>"

text \<open>
  The primary hit on the first mirror, the reflection ray and hit of the first bounce,
  the reflection ray of the second, and \<open>clr\<close> as it stands on entry to the loop and
  after the first iteration.
\<close>

definition hit_a :: HitInfo where
  "hit_a = \<lparr> hit_t = 4, hit_position = Vec3 0 0 1, hit_normal = Vec3 0 0 1,
              hit_mtl = mtl mirror_a \<rparr>"

definition ray_1 :: Ray where
  "ray_1 = \<lparr> pos = Vec3 0 0 (1001 / 1000), dir = Vec3 0 0 1 \<rparr>"

definition hit_b :: HitInfo where
  "hit_b = \<lparr> hit_t = 7999 / 1000, hit_position = Vec3 0 0 9, hit_normal = Vec3 0 0 (- 1),
              hit_mtl = mtl mirror_b \<rparr>"

definition ray_2 :: Ray where
  "ray_2 = \<lparr> pos = Vec3 0 0 (8999 / 1000), dir = Vec3 0 0 (- 1) \<rparr>"

definition clr_0 :: vec3 where
  "clr_0 = Shade scene_two (hit_mtl hit_a) (hit_position hit_a) (hit_normal hit_a)
             (normalize_vec scene_two (- dir front_ray))"

definition clr_1 :: vec3 where
  "clr_1 = clr_0 + k_s (hit_mtl hit_a) *
             Shade scene_two (hit_mtl hit_b) (hit_position hit_b) (hit_normal hit_b)
               (normalize_vec scene_two (- dir ray_1))"

text \<open>
  The one-sphere scene on a binary32 platform, and on it a scene of three spheres
  for the ray from \<open>(0, 0, 5)\<close>: one behind the unit sphere, then the unit sphere,
  then a second sphere in the place of the unit sphere with another material.
\<close>

definition scene_32 :: shader where
  "scene_32 = scene_one\<lparr>rounding := binary32\<rparr>"

definition far_sphere :: Sphere where
  "far_sphere = \<lparr> center = Vec3 0 0 (- 10), radius = 1, mtl = gloss_0 \<rparr>"

definition trio_scene :: shader where
  "trio_scene =
     scene_32\<lparr>spheres := [far_sphere, unit_sphere, unit_sphere\<lparr>mtl := gloss_10\<rparr>]\<rparr>"

text \<open>
  A ray down the z axis from \<open>(0, 0, 5000)\<close>, and a scene of the unit sphere and a
  sphere of radius \<open>1/4\<close> around \<open>(0, 0, 1/4)\<close>, which lies inside the unit sphere:
  the ray meets the unit sphere at distance \<open>4999\<close> and the small one at \<open>4999.5\<close>.
\<close>

definition high_ray :: Ray where
  "high_ray = \<lparr> pos = Vec3 0 0 5000, dir = Vec3 0 0 (- 1) \<rparr>"

definition small_sphere :: Sphere where
  "small_sphere = \<lparr> center = Vec3 0 0 (1 / 4), radius = 1 / 4, mtl = gloss_10 \<rparr>"

definition pair_scene :: shader where
  "pair_scene = scene_32\<lparr>spheres := [unit_sphere, small_sphere]\<rparr>"



section \<open>Properties\<close>

declare reflect_loop.simps [simp del]

subsection \<open>Vector algebra\<close>

lemmas vec_defs = dot_def scale_def plus_vec3_def minus_vec3_def uminus_vec3_def
  times_vec3_def zero_vec3_def length_vec_def

lemmas exact_defs = exact_a_def exact_b_def exact_c_def exact_discriminant_def exact_t1_def
  exact_t2_def

lemma dot_self_nonneg: "0 \<le> dot v v"
  by (simp add: dot_def)

lemma dot_self_zero: "dot v v = 0 \<longleftrightarrow> v = 0"
  by (cases v) (simp add: dot_def zero_vec3_def sum_squares_eq_zero_iff add_nonneg_eq_0_iff)






lemma scale_zero [simp]: "scale 0 v = Vec3 0 0 0"
  by (simp add: scale_def)

lemma add_zero_vec [simp]: "(v::vec3) + Vec3 0 0 0 = v"
  by (cases v) (simp add: plus_vec3_def)

lemma length_axis: "length_vec (Vec3 0 0 z) = \<bar>z\<bar>"
  by (simp add: length_vec_def dot_def)

lemma sqrt_36_25: "sqrt (36 / 25) = 6 / 5"
  by (simp add: real_sqrt_divide)

subsection \<open>The loop over the spheres\<close>

text \<open>
  A step either leaves the state alone or accepts the sphere, and it accepts exactly
  when the candidate is positive and strictly below the current \<open>hit.t\<close>.
\<close>

lemma sphere_step_cases:
  "sphere_step S ray st s = st \<or>
   (\<exists>tc. candidate S ray s = Some tc \<and> 0 < tc \<and> tc < hit_t (fst st) \<and>
         sphere_step S ray st s = (record_hit S ray s tc, True))"
  by (simp add: sphere_step_def split: option.split)

lemma hit_t_record_hit [simp]: "hit_t (record_hit S ray s tc) = tc"
  by (simp add: record_hit_def Let_def)

lemma hit_mtl_record_hit [simp]: "hit_mtl (record_hit S ray s tc) = mtl s"
  by (simp add: record_hit_def Let_def)

lemma found_stays: "snd st \<Longrightarrow> snd (foldl (sphere_step S ray) st ss)"
proof (induction ss arbitrary: st)
  case Nil
  then show ?case by simp
next
  case (Cons s ss)
  have "snd (sphere_step S ray st s)"
    using Cons.prems sphere_step_cases [of S ray st s] by auto
  then show ?case using Cons.IH by simp
qed

lemma not_found_unchanged:
  "\<not> snd (foldl (sphere_step S ray) st ss) \<Longrightarrow> foldl (sphere_step S ray) st ss = st"
proof (induction ss arbitrary: st)
  case Nil
  then show ?case by simp
next
  case (Cons s ss)
  from sphere_step_cases [of S ray st s] show ?case
  proof
    assume "sphere_step S ray st s = st"
    then show ?thesis using Cons by simp
  next
    assume "\<exists>tc. candidate S ray s = Some tc \<and> 0 < tc \<and> tc < hit_t (fst st) \<and>
         sphere_step S ray st s = (record_hit S ray s tc, True)"
    then have "snd (sphere_step S ray st s)" by auto
    then have "snd (foldl (sphere_step S ray) (sphere_step S ray st s) ss)"
      by (rule found_stays)
    then show ?thesis using Cons.prems by simp
  qed
qed

text \<open>
  The invariant of the scan, from a state with \<open>foundHit = false\<close>: the current
  \<open>hit.t\<close> is at most every positive candidate seen so far, and once a sphere has
  been accepted the record is that of the first sphere whose candidate equals it.
\<close>

lemma scan_invariant:
  "(let R = foldl (sphere_step S ray) (h0, False) ss in
     hit_t (fst R) \<le> hit_t h0 \<and>
     (\<forall>s\<in>set ss. \<forall>tc. candidate S ray s = Some tc \<and> 0 < tc \<longrightarrow> hit_t (fst R) \<le> tc) \<and>
     (snd R \<longrightarrow>
        (\<exists>i<length ss. fst R = record_hit S ray (ss ! i) (hit_t (fst R)) \<and>
            candidate S ray (ss ! i) = Some (hit_t (fst R)) \<and>
            0 < hit_t (fst R) \<and> hit_t (fst R) < hit_t h0 \<and>
            (\<forall>j<i. candidate S ray (ss ! j) \<noteq> Some (hit_t (fst R))))))"
proof (induction ss rule: rev_induct)
  case Nil
  then show ?case by simp
next
  case (snoc s ss)
  define R where "R = foldl (sphere_step S ray) (h0, False) ss"
  have IH1: "hit_t (fst R) \<le> hit_t h0"
    and IH2: "\<And>u tc. u \<in> set ss \<Longrightarrow> candidate S ray u = Some tc \<Longrightarrow> 0 < tc \<Longrightarrow> hit_t (fst R) \<le> tc"
    and IH3: "snd R \<Longrightarrow> \<exists>i<length ss. fst R = record_hit S ray (ss ! i) (hit_t (fst R)) \<and>
            candidate S ray (ss ! i) = Some (hit_t (fst R)) \<and>
            0 < hit_t (fst R) \<and> hit_t (fst R) < hit_t h0 \<and>
            (\<forall>j<i. candidate S ray (ss ! j) \<noteq> Some (hit_t (fst R)))"
    using snoc.IH unfolding R_def Let_def by blast+
  have step: "foldl (sphere_step S ray) (h0, False) (ss @ [s]) = sphere_step S ray R s"
    by (simp add: R_def)
  from sphere_step_cases [of S ray R s] show ?case
  proof
    assume same: "sphere_step S ray R s = R"
    have news: "\<And>tc. candidate S ray s = Some tc \<Longrightarrow> 0 < tc \<Longrightarrow> hit_t (fst R) \<le> tc"
    proof -
      fix tc assume c: "candidate S ray s = Some tc" and p: "0 < tc"
      show "hit_t (fst R) \<le> tc"
      proof (rule ccontr)
        assume "\<not> hit_t (fst R) \<le> tc"
        then have "sphere_step S ray R s = (record_hit S ray s tc, True)"
          using c p by (simp add: sphere_step_def)
        then have "hit_t (fst R) = tc" using same by (metis fst_conv hit_t_record_hit)
        then show False using \<open>\<not> hit_t (fst R) \<le> tc\<close> by simp
      qed
    qed
    have A: "\<forall>u\<in>set (ss @ [s]). \<forall>tc. candidate S ray u = Some tc \<and> 0 < tc \<longrightarrow> hit_t (fst R) \<le> tc"
      using IH2 news by auto
    have B: "snd R \<longrightarrow> (\<exists>i<length (ss @ [s]). fst R = record_hit S ray ((ss @ [s]) ! i) (hit_t (fst R)) \<and>
            candidate S ray ((ss @ [s]) ! i) = Some (hit_t (fst R)) \<and>
            0 < hit_t (fst R) \<and> hit_t (fst R) < hit_t h0 \<and>
            (\<forall>j<i. candidate S ray ((ss @ [s]) ! j) \<noteq> Some (hit_t (fst R))))"
    proof
      assume "snd R"
      from IH3 [OF this] obtain i where i: "i < length ss"
        "fst R = record_hit S ray (ss ! i) (hit_t (fst R))"
        "candidate S ray (ss ! i) = Some (hit_t (fst R))"
        "0 < hit_t (fst R)" "hit_t (fst R) < hit_t h0"
        "\<forall>j<i. candidate S ray (ss ! j) \<noteq> Some (hit_t (fst R))" by blast
      show "\<exists>i<length (ss @ [s]). fst R = record_hit S ray ((ss @ [s]) ! i) (hit_t (fst R)) \<and>
            candidate S ray ((ss @ [s]) ! i) = Some (hit_t (fst R)) \<and>
            0 < hit_t (fst R) \<and> hit_t (fst R) < hit_t h0 \<and>
            (\<forall>j<i. candidate S ray ((ss @ [s]) ! j) \<noteq> Some (hit_t (fst R)))"
        using i by (intro exI [of _ i]) (simp add: nth_append)
    qed
    show ?thesis unfolding Let_def step same using IH1 A B by blast
  next
    assume "\<exists>tc. candidate S ray s = Some tc \<and> 0 < tc \<and> tc < hit_t (fst R) \<and>
         sphere_step S ray R s = (record_hit S ray s tc, True)"
    then obtain tc where tc: "candidate S ray s = Some tc" "0 < tc" "tc < hit_t (fst R)"
      and new: "sphere_step S ray R s = (record_hit S ray s tc, True)" by blast
    have A: "\<forall>u\<in>set (ss @ [s]). \<forall>tc'. candidate S ray u = Some tc' \<and> 0 < tc' \<longrightarrow> tc \<le> tc'"
      using IH2 tc by fastforce
    have C: "\<forall>j<length ss. candidate S ray ((ss @ [s]) ! j) \<noteq> Some tc"
    proof (intro allI impI notI)
      fix j assume j: "j < length ss" and e: "candidate S ray ((ss @ [s]) ! j) = Some tc"
      then have "candidate S ray (ss ! j) = Some tc" by (simp add: nth_append)
      then have "hit_t (fst R) \<le> tc" using IH2 [of "ss ! j" tc] j tc(2) by simp
      then show False using tc(3) by simp
    qed
    have B: "\<exists>i<length (ss @ [s]). record_hit S ray s tc = record_hit S ray ((ss @ [s]) ! i) tc \<and>
            candidate S ray ((ss @ [s]) ! i) = Some tc \<and>
            0 < tc \<and> tc < hit_t h0 \<and>
            (\<forall>j<i. candidate S ray ((ss @ [s]) ! j) \<noteq> Some tc)"
      using tc IH1 C by (intro exI [of _ "length ss"]) simp
    show ?thesis unfolding Let_def step new using tc IH1 A B by simp
  qed
qed

text \<open>
  What the caller passes in as \<open>hit\<close> has no influence on the returned flag, on
  \<open>hit.t\<close>, or, when a sphere is hit, on any field.
\<close>

lemma step_rel:
  assumes "snd st = snd st'" "hit_t (fst st) = hit_t (fst st')" "snd st \<longrightarrow> fst st = fst st'"
  shows "snd (sphere_step S ray st s) = snd (sphere_step S ray st' s) \<and>
         hit_t (fst (sphere_step S ray st s)) = hit_t (fst (sphere_step S ray st' s)) \<and>
         (snd (sphere_step S ray st s) \<longrightarrow> fst (sphere_step S ray st s) = fst (sphere_step S ray st' s))"
  using assms by (auto simp: sphere_step_def split: option.split)

lemma scan_rel:
  "snd st = snd st' \<Longrightarrow> hit_t (fst st) = hit_t (fst st') \<Longrightarrow> (snd st \<longrightarrow> fst st = fst st') \<Longrightarrow>
   snd (foldl (sphere_step S ray) st ss) = snd (foldl (sphere_step S ray) st' ss) \<and>
   hit_t (fst (foldl (sphere_step S ray) st ss)) = hit_t (fst (foldl (sphere_step S ray) st' ss)) \<and>
   (snd (foldl (sphere_step S ray) st ss) \<longrightarrow>
      fst (foldl (sphere_step S ray) st ss) = fst (foldl (sphere_step S ray) st' ss))"
proof (induction ss arbitrary: st st')
  case Nil
  then show ?case by simp
next
  case (Cons s ss)
  from step_rel [OF Cons.prems, of S ray s] show ?case
    using Cons.IH [of "sphere_step S ray st s" "sphere_step S ray st' s"] by simp
qed

lemma IntersectRay_indep:
  "snd (IntersectRay S h ray) = snd (IntersectRay S h' ray) \<and>
   hit_t (fst (IntersectRay S h ray)) = hit_t (fst (IntersectRay S h' ray)) \<and>
   (snd (IntersectRay S h ray) \<longrightarrow> fst (IntersectRay S h ray) = fst (IntersectRay S h' ray))"
  unfolding IntersectRay_def by (rule scan_rel) simp_all

text \<open>
  \<open>IntersectRay\<close> returns true exactly when some sphere has a positive candidate
  below the sentinel.
\<close>

lemma IntersectRay_found_iff:
  "snd (IntersectRay S h ray) \<longleftrightarrow>
     (\<exists>s\<in>set (spheres S). \<exists>tc. candidate S ray s = Some tc \<and> 0 < tc \<and> tc < sentinel)"
proof
  assume f: "snd (IntersectRay S h ray)"
  from scan_invariant [of S ray "h\<lparr>hit_t := sentinel\<rparr>" "spheres S"] f
  obtain i where "i < length (spheres S)"
    "candidate S ray (spheres S ! i) = Some (hit_t (fst (IntersectRay S h ray)))"
    "0 < hit_t (fst (IntersectRay S h ray))" "hit_t (fst (IntersectRay S h ray)) < sentinel"
    unfolding IntersectRay_def Let_def by auto
  then show "\<exists>s\<in>set (spheres S). \<exists>tc. candidate S ray s = Some tc \<and> 0 < tc \<and> tc < sentinel"
    using nth_mem by blast
next
  assume "\<exists>s\<in>set (spheres S). \<exists>tc. candidate S ray s = Some tc \<and> 0 < tc \<and> tc < sentinel"
  then obtain s tc where s: "s \<in> set (spheres S)" "candidate S ray s = Some tc" "0 < tc"
    "tc < sentinel" by blast
  show "snd (IntersectRay S h ray)"
  proof (rule ccontr)
    assume n: "\<not> snd (IntersectRay S h ray)"
    then have "IntersectRay S h ray = (h\<lparr>hit_t := sentinel\<rparr>, False)"
      unfolding IntersectRay_def by (rule not_found_unchanged)
    then have t: "hit_t (fst (IntersectRay S h ray)) = sentinel" by simp
    from scan_invariant [of S ray "h\<lparr>hit_t := sentinel\<rparr>" "spheres S"] s(1) s(2) s(3)
    have "hit_t (fst (IntersectRay S h ray)) \<le> tc"
      unfolding IntersectRay_def Let_def by blast
    then show False using t s(4) by simp
  qed
qed

subsection \<open>The quadratic without rounding\<close>

lemma exact_a_pos: "dir ray \<noteq> 0 \<Longrightarrow> 0 < exact_a ray"
  using dot_self_nonneg [of "dir ray"] dot_self_zero [of "dir ray"]
  by (simp add: exact_a_def less_le)

lemma on_sphere_quadratic:
  "on_sphere ray s \<tau> \<longleftrightarrow> exact_a ray * \<tau> * \<tau> + exact_b ray s * \<tau> + exact_c ray s = 0"
  by (cases "pos ray"; cases "dir ray"; cases "center s")
     (simp add: on_sphere_def exact_a_def exact_b_def exact_c_def dot_def scale_def
        plus_vec3_def minus_vec3_def algebra_simps)

lemma quadratic_roots:
  fixes a b c x :: real
  assumes "0 < a"
  shows "a * x * x + b * x + c = 0 \<longleftrightarrow>
         0 \<le> b * b - 4 * a * c \<and>
         (x = (- b - sqrt (b * b - 4 * a * c)) / (2 * a) \<or>
          x = (- b + sqrt (b * b - 4 * a * c)) / (2 * a))"
proof -
  have sq: "(2 * a * x + b) * (2 * a * x + b) = b * b - 4 * a * c + 4 * a * (a * x * x + b * x + c)"
    by (simp add: algebra_simps)
  show ?thesis
  proof
    assume eq: "a * x * x + b * x + c = 0"
    then have d: "(2 * a * x + b) * (2 * a * x + b) = b * b - 4 * a * c" using sq by simp
    then have nn: "0 \<le> b * b - 4 * a * c" by (metis zero_le_square)
    have "sqrt (b * b - 4 * a * c) = \<bar>2 * a * x + b\<bar>"
      using d by (metis real_sqrt_abs2)
    then have "2 * a * x + b = sqrt (b * b - 4 * a * c) \<or> 2 * a * x + b = - sqrt (b * b - 4 * a * c)"
      by linarith
    then have "x = (- b + sqrt (b * b - 4 * a * c)) / (2 * a) \<or> x = (- b - sqrt (b * b - 4 * a * c)) / (2 * a)"
      using assms by (auto simp: field_simps)
    then show "0 \<le> b * b - 4 * a * c \<and>
         (x = (- b - sqrt (b * b - 4 * a * c)) / (2 * a) \<or>
          x = (- b + sqrt (b * b - 4 * a * c)) / (2 * a))" using nn by blast
  next
    assume r: "0 \<le> b * b - 4 * a * c \<and>
         (x = (- b - sqrt (b * b - 4 * a * c)) / (2 * a) \<or>
          x = (- b + sqrt (b * b - 4 * a * c)) / (2 * a))"
    then have s: "sqrt (b * b - 4 * a * c) * sqrt (b * b - 4 * a * c) = b * b - 4 * a * c" by simp
    from r have "2 * a * x + b = sqrt (b * b - 4 * a * c) \<or> 2 * a * x + b = - sqrt (b * b - 4 * a * c)"
      using assms by (auto simp: field_simps)
    then have "(2 * a * x + b) * (2 * a * x + b) = b * b - 4 * a * c"
      using s by auto
    then have "4 * a * (a * x * x + b * x + c) = 0" using sq by simp
    then show "a * x * x + b * x + c = 0" using assms by simp
  qed
qed

lemma roots_ordered:
  "dir ray \<noteq> 0 \<Longrightarrow> 0 \<le> exact_discriminant ray s \<Longrightarrow> exact_t1 ray s \<le> exact_t2 ray s"
  using exact_a_pos [of ray]
  by (simp add: exact_t1_def exact_t2_def divide_le_cancel)

lemma on_sphere_roots:
  assumes "dir ray \<noteq> 0"
  shows "on_sphere ray s \<tau> \<longleftrightarrow>
         0 \<le> exact_discriminant ray s \<and> (\<tau> = exact_t1 ray s \<or> \<tau> = exact_t2 ray s)"
  using exact_a_pos [OF assms] quadratic_roots [of "exact_a ray" \<tau> "exact_b ray s" "exact_c ray s"]
  by (simp add: on_sphere_quadratic exact_discriminant_def exact_t1_def exact_t2_def)

lemma exact_candidate_on_sphere:
  "dir ray \<noteq> 0 \<Longrightarrow> exact_candidate ray s = Some tc \<Longrightarrow> on_sphere ray s tc"
  by (auto simp: exact_candidate_def on_sphere_roots [of ray s] split: if_splits)

lemma exact_candidate_least:
  assumes "dir ray \<noteq> 0" "on_sphere ray s \<tau>" "0 < \<tau>"
  shows "\<exists>tc. exact_candidate ray s = Some tc \<and> 0 < tc \<and> tc \<le> \<tau>"
proof -
  from assms have d: "0 \<le> exact_discriminant ray s"
    and r: "\<tau> = exact_t1 ray s \<or> \<tau> = exact_t2 ray s"
    by (simp_all add: on_sphere_roots [of ray s])
  have o: "exact_t1 ray s \<le> exact_t2 ray s" using assms(1) d by (rule roots_ordered)
  show ?thesis using d r o assms(3) by (auto simp: exact_candidate_def)
qed


subsection \<open>A solver that does not round\<close>

text \<open>
  When the platform returns every value of the solver as it is, the solver computes
  the exact coefficients, discriminant and roots, and the candidate is the exact one.
\<close>

lemma unrounded_Nil [simp]: "unrounded S []"
  by (simp add: unrounded_def)

lemma unrounded_Cons [simp]:
  "unrounded S (x # xs) \<longleftrightarrow> rounding S x = Fin x \<and> unrounded S xs"
  by (simp add: unrounded_def)

lemma unrounded_append [simp]:
  "unrounded S (xs @ ys) \<longleftrightarrow> unrounded S xs \<and> unrounded S ys"
  by (simp add: unrounded_def)

lemma exact_platform: "rounding S = Fin \<Longrightarrow> unrounded S xs"
  by (simp add: unrounded_def list_all_iff)

lemma fl_dot_unrounded:
  "unrounded S (dot_values u v) \<Longrightarrow> fl_dot S (fl_vec u) (fl_vec v) = Fin (dot u v)"
  by (simp add: dot_values_def fl_vec_def dot_def)

lemma quad_oc_unrounded:
  assumes "unrounded S [vec_x (pos ray - center s), vec_y (pos ray - center s),
                        vec_z (pos ray - center s)]"
  shows "quad_oc S ray s = fl_vec (pos ray - center s)"
  using assms by (simp add: quad_oc_def fl_vec_def fl_sub_def minus_vec3_def)

lemma solver_unrounded:
  assumes u: "unrounded S (solver_values ray s)" and nz: "dir ray \<noteq> 0"
  shows "quad_a S ray = Fin (exact_a ray)"
    and "quad_b S ray s = Fin (exact_b ray s)"
    and "quad_c S ray s = Fin (exact_c ray s)"
    and "discriminant S ray s = Fin (exact_discriminant ray s)"
    and "0 \<le> exact_discriminant ray s \<Longrightarrow> root_t1 S ray s = Fin (exact_t1 ray s)"
    and "0 \<le> exact_discriminant ray s \<Longrightarrow> root_t2 S ray s = Fin (exact_t2 ray s)"
proof -
  let ?oc = "pos ray - center s"
  from u have oc: "quad_oc S ray s = fl_vec ?oc"
    by (intro quad_oc_unrounded) (simp add: solver_values_def Let_def)
  from u have dd: "fl_dot S (fl_vec (dir ray)) (fl_vec (dir ray)) = Fin (dot (dir ray) (dir ray))"
    by (intro fl_dot_unrounded) (simp add: solver_values_def Let_def)
  from u have od: "fl_dot S (fl_vec ?oc) (fl_vec (dir ray)) = Fin (dot ?oc (dir ray))"
    by (intro fl_dot_unrounded) (simp add: solver_values_def Let_def)
  from u have oo: "fl_dot S (fl_vec ?oc) (fl_vec ?oc) = Fin (dot ?oc ?oc)"
    by (intro fl_dot_unrounded) (simp add: solver_values_def Let_def)
  from u have r: "rounding S (exact_b ray s) = Fin (exact_b ray s)"
    "rounding S (radius s * radius s) = Fin (radius s * radius s)"
    "rounding S (exact_c ray s) = Fin (exact_c ray s)"
    "rounding S (exact_b ray s * exact_b ray s) = Fin (exact_b ray s * exact_b ray s)"
    "rounding S (4 * exact_a ray) = Fin (4 * exact_a ray)"
    "rounding S (4 * exact_a ray * exact_c ray s) = Fin (4 * exact_a ray * exact_c ray s)"
    "rounding S (exact_discriminant ray s) = Fin (exact_discriminant ray s)"
    by (simp_all add: solver_values_def Let_def)
  show a: "quad_a S ray = Fin (exact_a ray)"
    by (simp add: quad_a_def dd exact_a_def)
  show b: "quad_b S ray s = Fin (exact_b ray s)"
    using r(1) by (simp add: quad_b_def oc od exact_b_def)
  show c: "quad_c S ray s = Fin (exact_c ray s)"
    using r(2) r(3) by (simp add: quad_c_def oc oo fl_sub_def exact_c_def)
  show d: "discriminant S ray s = Fin (exact_discriminant ray s)"
    using r(4) r(5) r(6) r(7)
    by (simp add: discriminant_def a b c fl_sub_def exact_discriminant_def)
  have a0: "2 * exact_a ray \<noteq> 0" using exact_a_pos [OF nz] by simp
  {
    assume nn: "0 \<le> exact_discriminant ray s"
    with u have q: "rounding S (sqrt (exact_discriminant ray s)) = Fin (sqrt (exact_discriminant ray s))"
      "rounding S (- exact_b ray s - sqrt (exact_discriminant ray s))
         = Fin (- exact_b ray s - sqrt (exact_discriminant ray s))"
      "rounding S (2 * exact_a ray) = Fin (2 * exact_a ray)"
      "rounding S (exact_t1 ray s) = Fin (exact_t1 ray s)"
      "rounding S (- exact_b ray s + sqrt (exact_discriminant ray s))
         = Fin (- exact_b ray s + sqrt (exact_discriminant ray s))"
      "rounding S (exact_t2 ray s) = Fin (exact_t2 ray s)"
      by (simp_all add: solver_values_def Let_def)
    have sq: "sqrt_discriminant S ray s = Fin (sqrt (exact_discriminant ray s))"
      using nn q(1) by (simp add: sqrt_discriminant_def d)
    show "root_t1 S ray s = Fin (exact_t1 ray s)"
      using q(2) q(3) q(4) a0
      by (simp add: root_t1_def a b sq fl_sub_def) (simp add: exact_t1_def)
    show "root_t2 S ray s = Fin (exact_t2 ray s)"
      using q(5) q(3) q(6) a0
      by (simp add: root_t2_def a b sq) (simp add: exact_t2_def)
  }
qed

lemma candidate_unrounded:
  assumes u: "unrounded S (solver_values ray s)" and nz: "dir ray \<noteq> 0"
  shows "candidate S ray s = exact_candidate ray s"
proof (cases "0 \<le> exact_discriminant ray s")
  case True
  note r = solver_unrounded [OF u nz]
  show ?thesis
    using True by (simp add: candidate_def solve_def exact_candidate_def r(4) r(5) r(6))
next
  case False
  note r = solver_unrounded [OF u nz]
  show ?thesis
    using False by (simp add: candidate_def solve_def exact_candidate_def r(4))
qed

text \<open>Only a finite \<open>t\<close> passes the test \<open>t > 0.0 && t < hit.t\<close>.\<close>

lemma accepted_finite:
  "fl_pos t \<and> fl_below t h \<longleftrightarrow> (\<exists>x. t = Fin x \<and> 0 < x \<and> x < h)"
  by (cases t) simp_all

subsection \<open>Evaluating binary32\<close>

lemma round_even_int [simp]: "round_even (of_int z) = z"
  by (simp add: round_even_def)

lemma round_even_bounds: "of_int (round_even y) \<le> y + 1 / 2" "y - 1 / 2 \<le> of_int (round_even y)"
  unfolding round_even_def Let_def by (simp_all; linarith)+

lemma round_even_mono_le: "y \<le> of_int n \<Longrightarrow> round_even y \<le> n"
proof -
  assume a: "y \<le> of_int n"
  have "of_int (round_even y) \<le> y + 1 / 2" by (rule round_even_bounds)
  then have "(of_int (round_even y) :: real) < of_int n + 1" using a by linarith
  then have "(of_int (round_even y) :: real) < of_int (n + 1)" by simp
  then have "round_even y < n + 1" by (simp only: of_int_less_iff)
  then show ?thesis by simp
qed

lemma round_even_mono_ge: "of_int n \<le> y \<Longrightarrow> n \<le> round_even y"
proof -
  assume a: "of_int n \<le> y"
  have "y - 1 / 2 \<le> of_int (round_even y)" by (rule round_even_bounds)
  then have "(of_int n :: real) - 1 < of_int (round_even y)" using a by linarith
  then have "(of_int (n - 1) :: real) < of_int (round_even y)" by simp
  then have "n - 1 < round_even y" by (simp only: of_int_less_iff)
  then show ?thesis by simp
qed

lemma round_even_abs: "\<bar>y\<bar> \<le> of_int n \<Longrightarrow> \<bar>round_even y\<bar> \<le> n"
proof -
  assume a: "\<bar>y\<bar> \<le> of_int n"
  then have "y \<le> of_int n" "of_int (- n) \<le> y" by (simp_all add: abs_le_iff)
  then have "round_even y \<le> n" "- n \<le> round_even y"
    by (auto intro: round_even_mono_le round_even_mono_ge)
  then show ?thesis by simp
qed

lemma of_int_abs_le: "\<bar>z\<bar> \<le> 2 ^ 24 \<Longrightarrow> \<bar>of_int z :: real\<bar> \<le> 2 ^ 24"
proof -
  assume "\<bar>z\<bar> \<le> 2 ^ 24"
  then have "(of_int \<bar>z\<bar> :: real) \<le> of_int (2 ^ 24)" by (simp only: of_int_le_iff)
  then show ?thesis by simp
qed

lemma binary32_binade:
  assumes lo: "2 powr (of_int e) \<le> \<bar>x\<bar>" and hi: "\<bar>x\<bar> < 2 powr (of_int e + 1)"
    and emin: "- 126 \<le> e"
  shows "binary32 x =
           (let y = 2 powr (of_int e - 23) * of_int (round_even (x / 2 powr (of_int e - 23)))
            in if \<bar>y\<bar> < 2 ^ 128 then Fin y else if 0 < x then PInf else NInf)"
proof -
  have pos: "0 < \<bar>x\<bar>" using lo by (smt (verit) powr_gt_zero)
  then have nz: "x \<noteq> 0" by simp
  have "\<lfloor>log 2 \<bar>x\<bar>\<rfloor> = e"
    using floor_log_eq_powr_iff [of "\<bar>x\<bar>" 2 e] pos lo hi by simp
  then have "max \<lfloor>log 2 \<bar>x\<bar>\<rfloor> (- 126) = e" using emin by simp
  then show ?thesis using nz by (simp add: binary32_def Let_def)
qed

lemma pw_neg: "(2::real) powr (- real k) = 1 / 2 ^ k"
proof -
  have "(2::real) powr (- real k) = inverse (2 powr real k)" by (rule powr_minus)
  also have "\<dots> = inverse (2 ^ k)" using powr_realpow [of "2::real" k] by simp
  finally show ?thesis by (simp add: inverse_eq_divide)
qed

lemma pw1: "(2::real) powr (of_int (int (23 + k))) = 2 ^ (23 + k)"
  using powr_realpow [of "2::real" "23 + k"] by simp

lemma pw2: "(2::real) powr (of_int (int (23 + k)) + 1) = 2 ^ (24 + k)"
proof -
  have "of_int (int (23 + k)) + 1 = real (24 + k)" by simp
  then show ?thesis using powr_realpow [of "2::real" "24 + k"] by (simp only:)
qed

lemma pw3: "(2::real) powr (of_int (int (23 + k)) - 23) = 2 ^ k"
proof -
  have "of_int (int (23 + k)) - 23 = real k" by simp
  then show ?thesis using powr_realpow [of "2::real" k] by (simp only:)
qed

lemma pw4: "(2::real) powr (of_int (23 - int k)) = 2 ^ 23 / 2 ^ k"
proof -
  have "(2::real) powr (of_int (23 - int k)) = 2 powr (23 + (- real k))" by simp
  also have "\<dots> = 2 powr 23 * 2 powr (- real k)" by (rule powr_add)
  finally show ?thesis by (simp add: pw_neg)
qed

lemma pw5: "(2::real) powr (of_int (23 - int k) + 1) = 2 ^ 24 / 2 ^ k"
proof -
  have "(2::real) powr (of_int (23 - int k) + 1) = 2 powr (24 + (- real k))" by simp
  also have "\<dots> = 2 powr 24 * 2 powr (- real k)" by (rule powr_add)
  finally show ?thesis by (simp add: pw_neg)
qed

lemma pw6: "(2::real) powr (of_int (23 - int k) - 23) = 1 / 2 ^ k"
proof -
  have "of_int (23 - int k) - 23 = - real k" by simp
  then show ?thesis using pw_neg [of k] by (simp only:)
qed

lemma binary32_high:
  fixes k :: nat
  assumes lo: "2 ^ (23 + k) \<le> \<bar>x\<bar>" and hi: "\<bar>x\<bar> < 2 ^ (24 + k)" and k: "k \<le> 103"
  shows "binary32 x = Fin (2 ^ k * of_int (round_even (x / 2 ^ k)))"
proof -
  let ?e = "int (23 + k)"
  have b: "binary32 x =
           (let y = 2 powr (of_int ?e - 23) * of_int (round_even (x / 2 powr (of_int ?e - 23)))
            in if \<bar>y\<bar> < 2 ^ 128 then Fin y else if 0 < x then PInf else NInf)"
  proof (rule binary32_binade)
    show "2 powr real_of_int ?e \<le> \<bar>x\<bar>" unfolding pw1 by (rule lo)
    show "\<bar>x\<bar> < 2 powr (real_of_int ?e + 1)" unfolding pw2 by (rule hi)
    show "- 126 \<le> ?e" by simp
  qed
  have "\<bar>x\<bar> < 2 ^ 24 * 2 ^ k" using hi by (simp add: power_add)
  then have "\<bar>x\<bar> / 2 ^ k < 2 ^ 24" by (simp add: divide_less_eq)
  then have "\<bar>x / 2 ^ k\<bar> \<le> of_int (2 ^ 24)" by (simp add: abs_divide)
  then have "\<bar>round_even (x / 2 ^ k)\<bar> \<le> 2 ^ 24" by (rule round_even_abs)
  then have r: "\<bar>of_int (round_even (x / 2 ^ k)) :: real\<bar> \<le> 2 ^ 24" by (rule of_int_abs_le)
  have "\<bar>2 ^ k * of_int (round_even (x / 2 ^ k)) :: real\<bar>
          = 2 ^ k * \<bar>of_int (round_even (x / 2 ^ k))\<bar>"
    by (simp add: abs_mult)
  also have "\<dots> \<le> 2 ^ k * 2 ^ 24" using r by (simp add: mult_left_mono)
  also have "\<dots> = (2::real) ^ (k + 24)" by (simp add: power_add)
  also have "\<dots> \<le> (2::real) ^ 127" using k by (intro power_increasing) simp_all
  also have "\<dots> < (2::real) ^ 128" by (intro power_strict_increasing) simp_all
  finally show ?thesis using b by (simp only: pw3 Let_def if_True)
qed

lemma binary32_low:
  fixes k :: nat
  assumes lo: "2 ^ 23 \<le> \<bar>x\<bar> * 2 ^ k" and hi: "\<bar>x\<bar> * 2 ^ k < 2 ^ 24" and k: "k \<le> 149"
  shows "binary32 x = Fin (of_int (round_even (x * 2 ^ k)) / 2 ^ k)"
proof -
  let ?e = "23 - int k"
  have b: "binary32 x =
           (let y = 2 powr (of_int ?e - 23) * of_int (round_even (x / 2 powr (of_int ?e - 23)))
            in if \<bar>y\<bar> < 2 ^ 128 then Fin y else if 0 < x then PInf else NInf)"
  proof (rule binary32_binade)
    show "2 powr real_of_int ?e \<le> \<bar>x\<bar>"
      unfolding pw4 using lo by (simp add: divide_le_eq)
    show "\<bar>x\<bar> < 2 powr (real_of_int ?e + 1)"
      unfolding pw5 using hi by (simp add: less_divide_eq)
    show "- 126 \<le> ?e" using k by simp
  qed
  have "\<bar>x * 2 ^ k\<bar> \<le> of_int (2 ^ 24)" using hi by (simp add: abs_mult)
  then have "\<bar>round_even (x * 2 ^ k)\<bar> \<le> 2 ^ 24" by (rule round_even_abs)
  then have r: "\<bar>of_int (round_even (x * 2 ^ k)) :: real\<bar> \<le> 2 ^ 24" by (rule of_int_abs_le)
  have "\<bar>of_int (round_even (x * 2 ^ k)) / 2 ^ k :: real\<bar>
          = \<bar>of_int (round_even (x * 2 ^ k))\<bar> / 2 ^ k"
    by (simp add: abs_divide)
  also have "\<dots> \<le> \<bar>of_int (round_even (x * 2 ^ k))\<bar>"
    by (simp add: divide_le_eq mult_le_cancel_left1)
  also have "\<dots> \<le> 2 ^ 24" by (rule r)
  also have "\<dots> < (2::real) ^ 128" by (intro power_strict_increasing) simp_all
  finally have y: "\<bar>of_int (round_even (x * 2 ^ k)) / 2 ^ k :: real\<bar> < 2 ^ 128" .
  have "(2::real) powr (of_int ?e - 23) * of_int (round_even (x / 2 powr (of_int ?e - 23)))
          = of_int (round_even (x * 2 ^ k)) / 2 ^ k"
    unfolding pw6 by simp
  then show ?thesis using b y by (simp only: Let_def if_True)
qed


text \<open>Every \<open>z / 2^k\<close> with \<open>\<bar>z\<bar> < 2^24\<close> and \<open>k \<le> 126\<close> is a float.\<close>

lemma binary32_dyadic:
  assumes small: "\<bar>z\<bar> < 2 ^ 24" and k: "k \<le> 126"
  shows "binary32 (of_int z / 2 ^ k) = Fin (of_int z / 2 ^ k)"
proof (cases "z = 0")
  case True
  then show ?thesis by (simp add: binary32_def)
next
  case False
  define m :: real where "m = \<bar>of_int z\<bar>"
  have m1: "1 \<le> m"
  proof -
    have "1 \<le> \<bar>z\<bar>" using False by simp
    then have "(of_int 1 :: real) \<le> of_int \<bar>z\<bar>" by (simp only: of_int_le_iff)
    then show ?thesis by (simp add: m_def)
  qed
  have m2: "m < 2 ^ 24"
  proof -
    have "(of_int \<bar>z\<bar> :: real) < of_int (2 ^ 24)" using small by (simp only: of_int_less_iff)
    then show ?thesis by (simp add: m_def)
  qed
  define e where "e = \<lfloor>log 2 m\<rfloor>"
  have pos: "0 < m" using m1 by linarith
  have bin: "2 powr (of_int e) \<le> m" "m < 2 powr (of_int e + 1)"
    using floor_log_eq_powr_iff [of m 2 e] pos by (simp_all add: e_def)
  have e0: "0 \<le> e"
    unfolding e_def using m1 by (simp add: zero_le_log_cancel_iff)
  have e23: "e \<le> 23"
  proof -
    have "(2::real) powr (real 24) = 2 ^ 24" by (rule powr_realpow) simp
    then have "(2::real) powr (of_int e) < 2 powr (real 24)" using bin(1) m2 by linarith
    then have "real_of_int e < real 24"
      by (simp only: powr_less_cancel_iff one_less_numeral_iff semiring_norm)
    then have "real_of_int e < of_int 24" by simp
    then have "e < 24" by (simp only: of_int_less_iff)
    then show ?thesis by simp
  qed
  define j where "j = nat e"
  define i where "i = 23 - j"
  have ej: "e = int j" using e0 by (simp add: j_def)
  have ji: "j + i = 23" using e23 e0 by (simp add: i_def j_def)
  have pj: "(2::real) powr (of_int e) = 2 ^ j"
    unfolding ej using powr_realpow [of "2::real" j] by simp
  have pj1: "(2::real) powr (of_int e + 1) = 2 ^ (j + 1)"
  proof -
    have "of_int e + 1 = real (j + 1)" by (simp add: ej)
    then show ?thesis using powr_realpow [of "2::real" "j + 1"] by (simp only:)
  qed
  define x :: real where "x = of_int z / 2 ^ k"
  have sc: "x * 2 ^ (i + k) = of_int (z * 2 ^ i)"
    by (simp add: x_def power_add)
  have ab: "\<bar>x\<bar> * 2 ^ (i + k) = m * 2 ^ i"
    by (simp add: x_def m_def power_add abs_divide)
  have lo: "2 ^ 23 \<le> \<bar>x\<bar> * 2 ^ (i + k)"
  proof -
    have "(2::real) ^ 23 = 2 ^ j * 2 ^ i" by (simp only: power_add [symmetric] ji)
    also have "\<dots> \<le> m * 2 ^ i" using bin(1) pj by (simp add: mult_right_mono)
    finally show ?thesis by (simp only: ab)
  qed
  have hi: "\<bar>x\<bar> * 2 ^ (i + k) < 2 ^ 24"
  proof -
    have "m * 2 ^ i < 2 ^ (j + 1) * 2 ^ i" using bin(2) pj1 by (simp add: mult_strict_right_mono)
    also have "\<dots> = (2::real) ^ (j + 1 + i)" by (simp only: power_add)
    also have "j + 1 + i = 24" using ji by simp
    finally show ?thesis by (simp only: ab)
  qed
  have "binary32 x = Fin (of_int (round_even (x * 2 ^ (i + k))) / 2 ^ (i + k))"
    using lo hi by (rule binary32_low) (use k in \<open>simp add: i_def\<close>)
  then have "binary32 x = Fin (of_int (z * 2 ^ i) / 2 ^ (i + k))"
    by (simp only: sc round_even_int)
  then show ?thesis by (simp add: x_def power_add)
qed

lemma binary32_int: "\<bar>z\<bar> < 2 ^ 24 \<Longrightarrow> binary32 (of_int z) = Fin (of_int z)"
  using binary32_dyadic [of z 0] by simp

lemma binary32_numeral:
  "(numeral n :: int) < 2 ^ 24 \<Longrightarrow> binary32 (numeral n) = Fin (numeral n)"
  "(numeral n :: int) < 2 ^ 24 \<Longrightarrow> binary32 (- numeral n) = Fin (- numeral n)"
  "binary32 0 = Fin 0" "binary32 1 = Fin 1" "binary32 (- 1) = Fin (- 1)"
  using binary32_int [of "numeral n"] binary32_int [of "- numeral n"] binary32_int [of 0]
    binary32_int [of 1] binary32_int [of "- 1"]
  by simp_all

subsection \<open>Evaluating the one-sphere scene\<close>

text \<open>On the platform of the examples the candidate is the exact one.\<close>

lemma candidate_exact:
  "rounding S = Fin \<Longrightarrow> dir ray \<noteq> 0 \<Longrightarrow> candidate S ray s = exact_candidate ray s"
  by (rule candidate_unrounded) (auto intro: exact_platform)

lemmas eval_defs = candidate_exact exact_candidate_def exact_defs vec_defs record_hit_def
  normalize_vec_def Let_def

lemma one_uninit: "uninit scene_one = blank_hit"
  and one_spheres: "spheres scene_one = [unit_sphere]"
  by (simp_all add: scene_one_def)

lemma front_hit:
  "IntersectRay scene_one h front_ray =
     (\<lparr> hit_t = 4, hit_position = Vec3 0 0 1, hit_normal = Vec3 0 0 1, hit_mtl = matte_red \<rparr>,
      True)"
  by (simp add: IntersectRay_def scene_one_def sphere_step_def sentinel_def eval_defs
      front_ray_def unit_sphere_def)

lemma away_miss:
  "IntersectRay scene_one h away_ray = (h\<lparr>hit_t := sentinel\<rparr>, False)"
  by (simp add: IntersectRay_def scene_one_def sphere_step_def sentinel_def eval_defs
      away_ray_def unit_sphere_def)

subsection \<open>Evaluating the scenes on binary32\<close>

text \<open>
  The scene on the binary32 platform, the ray from \<open>(0, 0, 5)\<close>: every value of the
  solver is a small integer, for each of the three spheres.
\<close>

lemma rounding_32: "rounding scene_32 = binary32"
  and spheres_32: "spheres scene_32 = [unit_sphere]"
  and uninit_32: "uninit scene_32 = blank_hit"
  by (simp_all add: scene_32_def scene_one_def)

lemma rounding_trio: "rounding trio_scene = binary32"
  and spheres_trio: "spheres trio_scene = [far_sphere, unit_sphere, unit_sphere\<lparr>mtl := gloss_10\<rparr>]"
  by (simp_all add: trio_scene_def scene_32_def scene_one_def)

lemma front_dir: "dir front_ray \<noteq> 0"
  by (simp add: front_ray_def zero_vec3_def)

lemmas value_defs = solver_values_def dot_values_def exact_defs vec_defs Let_def

lemma front_unrounded:
  "unrounded trio_scene (solver_values front_ray far_sphere)"
  "unrounded trio_scene (solver_values front_ray unit_sphere)"
  "unrounded trio_scene (solver_values front_ray (unit_sphere\<lparr>mtl := gloss_10\<rparr>))"
  "unrounded scene_32 (solver_values front_ray unit_sphere)"
  by (simp_all add: value_defs rounding_trio rounding_32 front_ray_def far_sphere_def
      unit_sphere_def binary32_numeral)

lemma front_candidates:
  "candidate trio_scene front_ray far_sphere = Some 14"
  "candidate trio_scene front_ray unit_sphere = Some 4"
  "candidate trio_scene front_ray (unit_sphere\<lparr>mtl := gloss_10\<rparr>) = Some 4"
  "candidate scene_32 front_ray unit_sphere = Some 4"
  by (simp_all add: candidate_unrounded [OF _ front_dir] front_unrounded)
     (simp_all add: exact_candidate_def exact_defs vec_defs front_ray_def far_sphere_def
        unit_sphere_def)

lemma trio_hit:
  "IntersectRay trio_scene h front_ray =
     (record_hit trio_scene front_ray unit_sphere 4, True)"
  by (simp add: IntersectRay_def spheres_trio sphere_step_def front_candidates sentinel_def)




text \<open>
  The ray from \<open>(0, 0, 5000)\<close> on the binary32 platform. The products
  \<open>5000 * 5000\<close> and \<open>10000 * 10000\<close> are floats; \<open>25000000 - 1\<close> is not and
  rounds back to \<open>25000000\<close>, so the discriminant is \<open>0\<close> and both roots are
  \<open>5000\<close>.
\<close>

lemma high_values:
  "binary32 5000 = Fin 5000" "binary32 (- 5000) = Fin (- 5000)"
  "binary32 (- 10000) = Fin (- 10000)" "binary32 10000 = Fin 10000"
  "binary32 25000000 = Fin 25000000" "binary32 24999999 = Fin 25000000"
  "binary32 100000000 = Fin 100000000"
  using binary32_high [of 1 25000000] binary32_high [of 1 24999999]
    binary32_high [of 3 100000000]
  by (simp_all add: binary32_numeral round_even_def)

lemma high_dir: "dir high_ray \<noteq> 0"
  by (simp add: high_ray_def zero_vec3_def)

lemmas solver_defs = quad_oc_def quad_a_def quad_b_def quad_c_def discriminant_def
  sqrt_discriminant_def root_t1_def root_t2_def fl_vec_def fl_sub_def




text \<open>
  The same ray and the small sphere: \<open>4999.75 * 4999.75\<close> rounds to \<open>24997500\<close>,
  subtracting \<open>1/16\<close> leaves it there, \<open>9999.5 * 9999.5\<close> rounds to \<open>99990000\<close>,
  the discriminant is \<open>0\<close> and both roots are \<open>4999.75\<close>.
\<close>

lemma rounding_pair: "rounding pair_scene = binary32"
  and spheres_pair: "spheres pair_scene = [unit_sphere, small_sphere]"
  by (simp_all add: pair_scene_def scene_32_def scene_one_def)

lemma small_values:
  "binary32 (19999 / 4) = Fin (19999 / 4)" "binary32 (- (19999 / 4)) = Fin (- (19999 / 4))"
  "binary32 (19999 / 2) = Fin (19999 / 2)" "binary32 (- (19999 / 2)) = Fin (- (19999 / 2))"
  "binary32 (1 / 16) = Fin (1 / 16)"
  "binary32 (399960001 / 16) = Fin 24997500" "binary32 (399959999 / 16) = Fin 24997500"
  "binary32 24997500 = Fin 24997500"
  "binary32 (399960001 / 4) = Fin 99990000" "binary32 99990000 = Fin 99990000"
  using binary32_dyadic [of 19999 2] binary32_dyadic [of "- 19999" 2]
    binary32_dyadic [of 19999 1] binary32_dyadic [of "- 19999" 1] binary32_dyadic [of 1 4]
    binary32_high [of 1 "399960001 / 16"] binary32_high [of 1 "399959999 / 16"]
    binary32_high [of 1 24997500]
    binary32_high [of 3 "399960001 / 4"] binary32_high [of 3 99990000]
  by (simp_all add: round_even_def)

lemma high_small:
  "quad_c pair_scene high_ray small_sphere = Fin 24997500"
  "discriminant pair_scene high_ray small_sphere = Fin 0"
  "root_t1 pair_scene high_ray small_sphere = Fin (19999 / 4)"
  by (simp_all add: solver_defs rounding_pair high_ray_def small_sphere_def small_values
      binary32_numeral)

lemma pair_candidates:
  "candidate pair_scene high_ray unit_sphere = Some 5000"
  "candidate pair_scene high_ray small_sphere = Some (19999 / 4)"
  by (simp_all add: candidate_def solve_def high_small)
     (simp add: solver_defs rounding_pair high_ray_def unit_sphere_def high_values
        binary32_numeral)

lemma pair_hit:
  "IntersectRay pair_scene h high_ray =
     (record_hit pair_scene high_ray small_sphere (19999 / 4), True)"
  by (simp add: IntersectRay_def spheres_pair sphere_step_def pair_candidates sentinel_def)






section \<open>The claims about IntersectRay\<close>

text \<open>
  Claim C1, as the code has it. Whenever \<open>IntersectRay\<close> returns true, the resulting
  \<open>hit.t\<close> is the least positive candidate over all spheres of the scene, the
  candidate of a sphere being the \<open>t\<close> that the routine computes for it in floating
  point. Nothing at \<open>t \<le> 0\<close> is accepted, the comparison with the current best is
  strict and starts from the sentinel \<open>1e30\<close>, and when two spheres tie the earlier
  one in the array wins: the record is the one written for the first sphere whose
  candidate equals the final \<open>hit.t\<close>. For a ray with a direction other than the
  zero vector, when no operation of the solver rounds for any sphere of the scene,
  \<open>hit.t\<close> is also the least positive distance at which the ray meets a sphere.
\<close>

theorem IntersectRay_nearest:
  assumes found: "snd (IntersectRay S hit ray)"
  shows "0 < hit_t (fst (IntersectRay S hit ray)) \<and>
         hit_t (fst (IntersectRay S hit ray)) < sentinel \<and>
         (\<forall>s\<in>set (spheres S). \<forall>tc. candidate S ray s = Some tc \<and> 0 < tc \<longrightarrow>
             hit_t (fst (IntersectRay S hit ray)) \<le> tc) \<and>
         (\<exists>i<length (spheres S).
             fst (IntersectRay S hit ray) =
               record_hit S ray (spheres S ! i) (hit_t (fst (IntersectRay S hit ray))) \<and>
             candidate S ray (spheres S ! i) = Some (hit_t (fst (IntersectRay S hit ray))) \<and>
             (\<forall>j<i. candidate S ray (spheres S ! j) \<noteq>
                      Some (hit_t (fst (IntersectRay S hit ray))))) \<and>
         (dir ray \<noteq> 0 \<and> (\<forall>s\<in>set (spheres S). unrounded S (solver_values ray s)) \<longrightarrow>
            (\<exists>s\<in>set (spheres S). on_sphere ray s (hit_t (fst (IntersectRay S hit ray)))) \<and>
            (\<forall>s\<in>set (spheres S). \<forall>\<tau>. 0 < \<tau> \<and> on_sphere ray s \<tau> \<longrightarrow>
                hit_t (fst (IntersectRay S hit ray)) \<le> \<tau>))"
proof -
  define R where "R = IntersectRay S hit ray"
  have inv: "hit_t (fst R) \<le> sentinel"
    "\<And>s tc. s \<in> set (spheres S) \<Longrightarrow> candidate S ray s = Some tc \<Longrightarrow> 0 < tc \<Longrightarrow> hit_t (fst R) \<le> tc"
    "\<exists>i<length (spheres S). fst R = record_hit S ray (spheres S ! i) (hit_t (fst R)) \<and>
            candidate S ray (spheres S ! i) = Some (hit_t (fst R)) \<and>
            0 < hit_t (fst R) \<and> hit_t (fst R) < sentinel \<and>
            (\<forall>j<i. candidate S ray (spheres S ! j) \<noteq> Some (hit_t (fst R)))"
    using scan_invariant [of S ray "hit\<lparr>hit_t := sentinel\<rparr>" "spheres S"] found
    unfolding R_def IntersectRay_def Let_def by (simp, blast, simp)
  from inv(3) obtain i where i: "i < length (spheres S)"
    "fst R = record_hit S ray (spheres S ! i) (hit_t (fst R))"
    "candidate S ray (spheres S ! i) = Some (hit_t (fst R))"
    "0 < hit_t (fst R)" "hit_t (fst R) < sentinel"
    "\<forall>j<i. candidate S ray (spheres S ! j) \<noteq> Some (hit_t (fst R))" by blast
  have geo: "dir ray \<noteq> 0 \<and> (\<forall>s\<in>set (spheres S). unrounded S (solver_values ray s)) \<longrightarrow>
            (\<exists>s\<in>set (spheres S). on_sphere ray s (hit_t (fst R))) \<and>
            (\<forall>s\<in>set (spheres S). \<forall>\<tau>. 0 < \<tau> \<and> on_sphere ray s \<tau> \<longrightarrow> hit_t (fst R) \<le> \<tau>)"
  proof (intro impI conjI ballI allI)
    assume h: "dir ray \<noteq> 0 \<and> (\<forall>s\<in>set (spheres S). unrounded S (solver_values ray s))"
    then have nz: "dir ray \<noteq> 0" by simp
    have mem: "spheres S ! i \<in> set (spheres S)" using i(1) by simp
    then have "unrounded S (solver_values ray (spheres S ! i))" using h by blast
    then have "exact_candidate ray (spheres S ! i) = Some (hit_t (fst R))"
      using candidate_unrounded [of S ray "spheres S ! i"] nz i(3) by simp
    with nz have "on_sphere ray (spheres S ! i) (hit_t (fst R))"
      by (rule exact_candidate_on_sphere)
    then show "\<exists>s\<in>set (spheres S). on_sphere ray s (hit_t (fst R))"
      using mem by blast
  next
    fix s \<tau>
    assume h: "dir ray \<noteq> 0 \<and> (\<forall>s\<in>set (spheres S). unrounded S (solver_values ray s))"
      and s: "s \<in> set (spheres S)" and t: "0 < \<tau> \<and> on_sphere ray s \<tau>"
    from h have nz: "dir ray \<noteq> 0" by simp
    from h s have "unrounded S (solver_values ray s)" by blast
    then have c: "candidate S ray s = exact_candidate ray s"
      using nz by (rule candidate_unrounded)
    from exact_candidate_least [of ray s \<tau>] nz t obtain tc
      where tc: "exact_candidate ray s = Some tc" "0 < tc" "tc \<le> \<tau>" by blast
    have "hit_t (fst R) \<le> tc" using s tc(1) tc(2) c by (intro inv(2)) simp_all
    then show "hit_t (fst R) \<le> \<tau>" using tc(3) by simp
  qed
  have first: "\<exists>i<length (spheres S). fst R = record_hit S ray (spheres S ! i) (hit_t (fst R)) \<and>
            candidate S ray (spheres S ! i) = Some (hit_t (fst R)) \<and>
            (\<forall>j<i. candidate S ray (spheres S ! j) \<noteq> Some (hit_t (fst R)))"
    using i by blast
  have cand: "\<forall>s\<in>set (spheres S). \<forall>tc. candidate S ray s = Some tc \<and> 0 < tc \<longrightarrow> hit_t (fst R) \<le> tc"
    using inv(2) by blast
  show ?thesis
    unfolding R_def [symmetric] using i(4) i(5) cand first geo by blast
qed

text \<open>
  On a binary32 platform, the ray from \<open>(0, 0, 5)\<close> and three spheres: the first is
  met at \<open>14\<close>, the second and the third both at \<open>4\<close>. No operation rounds. The
  hit is at \<open>4\<close>, with the material of the second sphere.
\<close>

theorem IntersectRay_nearest_witness:
  "snd (IntersectRay trio_scene blank_hit front_ray) \<and>
   dir front_ray \<noteq> 0 \<and>
   spheres trio_scene = [far_sphere, unit_sphere, unit_sphere\<lparr>mtl := gloss_10\<rparr>] \<and>
   unrounded trio_scene (solver_values front_ray far_sphere) \<and>
   unrounded trio_scene (solver_values front_ray unit_sphere) \<and>
   unrounded trio_scene (solver_values front_ray (unit_sphere\<lparr>mtl := gloss_10\<rparr>)) \<and>
   candidate trio_scene front_ray far_sphere = Some 14 \<and>
   candidate trio_scene front_ray unit_sphere = Some 4 \<and>
   candidate trio_scene front_ray (unit_sphere\<lparr>mtl := gloss_10\<rparr>) = Some 4 \<and>
   0 < hit_t (fst (IntersectRay trio_scene blank_hit front_ray)) \<and>
   hit_t (fst (IntersectRay trio_scene blank_hit front_ray)) < sentinel \<and>
   hit_t (fst (IntersectRay trio_scene blank_hit front_ray)) = 4 \<and>
   hit_mtl (fst (IntersectRay trio_scene blank_hit front_ray)) = matte_red \<and>
   on_sphere front_ray unit_sphere 4"
proof -
  have f: "snd (IntersectRay trio_scene blank_hit front_ray)"
    by (simp add: trio_hit)
  from IntersectRay_nearest [OF f]
  have "0 < hit_t (fst (IntersectRay trio_scene blank_hit front_ray)) \<and>
        hit_t (fst (IntersectRay trio_scene blank_hit front_ray)) < sentinel"
    by blast
  moreover have "on_sphere front_ray unit_sphere 4"
    by (simp add: on_sphere_def front_ray_def unit_sphere_def vec_defs)
  moreover have "mtl unit_sphere = matte_red" by (simp add: unit_sphere_def)
  ultimately show ?thesis
    using f front_dir spheres_trio front_unrounded(1,2,3) front_candidates(1,2,3)
    by (simp add: trio_hit)
qed

text \<open>
  The claim as stated, for the distances at which the ray meets the spheres, fails
  where the solver rounds. On a binary32 platform the ray from \<open>(0, 0, 5000)\<close> down
  the z axis meets the unit sphere at \<open>4999\<close>. \<open>IntersectRay\<close> returns true with
  \<open>hit.t = 4999.75\<close>, which is larger and is a distance at which the ray meets
  neither sphere.
\<close>

theorem nearest_rounded_counterexample:
  "rounding pair_scene = binary32 \<and>
   spheres pair_scene = [unit_sphere, small_sphere] \<and>
   dir high_ray \<noteq> 0 \<and>
   snd (IntersectRay pair_scene blank_hit high_ray) \<and>
   hit_t (fst (IntersectRay pair_scene blank_hit high_ray)) = 19999 / 4 \<and>
   on_sphere high_ray unit_sphere 4999 \<and>
   4999 < hit_t (fst (IntersectRay pair_scene blank_hit high_ray)) \<and>
   \<not> on_sphere high_ray unit_sphere (hit_t (fst (IntersectRay pair_scene blank_hit high_ray))) \<and>
   \<not> on_sphere high_ray small_sphere (hit_t (fst (IntersectRay pair_scene blank_hit high_ray)))"
  by (simp add: pair_hit rounding_pair spheres_pair high_dir)
     (simp add: on_sphere_def high_ray_def unit_sphere_def small_sphere_def vec_defs)




text \<open>
  Claim C8, as the code has it. \<open>IntersectRay\<close> resets \<open>hit.t\<close> to the sentinel
  \<open>1e30\<close> on entry, whatever the caller passed. A call that returns false leaves
  \<open>hit.position\<close>, \<open>hit.normal\<close> and \<open>hit.mtl\<close> as the caller passed them and
  leaves \<open>hit.t\<close> at the sentinel.
\<close>

theorem IntersectRay_miss_frame:
  "\<not> snd (IntersectRay S hit ray) \<Longrightarrow>
     fst (IntersectRay S hit ray) = hit\<lparr>hit_t := sentinel\<rparr>"
  using not_found_unchanged [of S ray "(hit\<lparr>hit_t := sentinel\<rparr>, False)" "spheres S"]
  by (simp add: IntersectRay_def)

text \<open>A ray leaving the one-sphere scene, with \<open>hit.t = 5\<close> before the call.\<close>

theorem IntersectRay_miss_frame_witness:
  "\<not> snd (IntersectRay scene_one (blank_hit\<lparr>hit_t := 5\<rparr>) away_ray) \<and>
   fst (IntersectRay scene_one (blank_hit\<lparr>hit_t := 5\<rparr>) away_ray)
     = blank_hit\<lparr>hit_t := sentinel\<rparr>"
proof -
  have m: "\<not> snd (IntersectRay scene_one (blank_hit\<lparr>hit_t := 5\<rparr>) away_ray)"
    by (simp add: away_miss)
  from IntersectRay_miss_frame [OF m] show ?thesis using m by simp
qed

text \<open>
  The claim as stated, that a call returning false leaves every field unchanged,
  fails on \<open>hit.t\<close>: the same call returns false and has changed \<open>hit.t\<close> from \<open>5\<close>
  to the sentinel.
\<close>

theorem miss_changes_t_counterexample:
  "\<not> snd (IntersectRay scene_one (blank_hit\<lparr>hit_t := 5\<rparr>) away_ray) \<and>
   hit_t (blank_hit\<lparr>hit_t := 5\<rparr>) = 5 \<and>
   hit_t (fst (IntersectRay scene_one (blank_hit\<lparr>hit_t := 5\<rparr>) away_ray)) = 10 ^ 30 \<and>
   fst (IntersectRay scene_one (blank_hit\<lparr>hit_t := 5\<rparr>) away_ray) \<noteq> blank_hit\<lparr>hit_t := 5\<rparr>"
  by (simp add: away_miss sentinel_def blank_hit_def)




section \<open>The claims about Shade\<close>

subsection \<open>The power function\<close>

lemma pow_zero_base: "0 < b \<Longrightarrow> pow S 0 b = 0"
  by (simp add: pow_def)

subsection \<open>Evaluating a point above the one-sphere scene\<close>

text \<open>
  The point \<open>(0, 0, 3)\<close> with normal \<open>(0, 0, 1)\<close> and the light \<open>back_light\<close> at
  \<open>(0, 0, 2)\<close>, behind the surface and in front of the sphere: the shadow ray hits
  the sphere at \<open>t = 2.001\<close>, farther than the light at distance \<open>1\<close>.
\<close>

lemma back_shadow:
  "IntersectRay scene_one blank_hit (shadowRay scene_one (Vec3 0 0 3) (Vec3 0 0 1) back_light)
     = (record_hit scene_one \<lparr> pos = Vec3 0 0 (3001 / 1000), dir = Vec3 0 0 (- 1) \<rparr>
          unit_sphere (2001 / 1000), True)"
  by (simp add: IntersectRay_def scene_one_def sphere_step_def sentinel_def eval_defs shadowRay_def back_light_def unit_sphere_def)

lemma back_distance: "distanceToLight (Vec3 0 0 3) back_light = 1"
  by (simp add: distanceToLight_def back_light_def minus_vec3_def length_axis)

lemma back_lightDir: "lightDir scene_one (Vec3 0 0 3) back_light = Vec3 0 0 (- 1)"
  by (simp add: lightDir_def normalize_vec_def back_light_def minus_vec3_def length_axis scale_def)

lemma back_half:
  "halfVector scene_one (Vec3 0 0 3) side_view back_light = Vec3 (4 / 5) 0 (- (3 / 5))"
  by (simp add: halfVector_def back_lightDir normalize_vec_def side_view_def vec_defs sqrt_36_25)

lemma back_intensity: "intensity back_light = Vec3 1 1 1"
  by (simp add: back_light_def)

lemma one_pow_open: "pow scene_one 0 0 = 1"
  by (simp add: pow_def scene_one_def)

lemma back_unshadowed:
  "shade_light scene_one m (Vec3 0 0 3) (Vec3 0 0 1) view back_light =
     Some (diffuse scene_one m (Vec3 0 0 3) (Vec3 0 0 1) back_light +
           specular scene_one m (Vec3 0 0 3) (Vec3 0 0 1) view back_light)"
  by (simp add: shade_light_def one_uninit back_shadow back_distance Let_def)

lemma hidden_shadow:
  "IntersectRay scene_one blank_hit (shadowRay scene_one (Vec3 0 0 3) (Vec3 0 0 1) hidden_light)
     = (record_hit scene_one \<lparr> pos = Vec3 0 0 (3001 / 1000), dir = Vec3 0 0 (- 1) \<rparr>
          unit_sphere (2001 / 1000), True)"
  by (simp add: IntersectRay_def scene_one_def sphere_step_def sentinel_def eval_defs shadowRay_def hidden_light_def unit_sphere_def)

lemma hidden_distance: "distanceToLight (Vec3 0 0 3) hidden_light = 8"
  by (simp add: distanceToLight_def hidden_light_def minus_vec3_def length_axis)

text \<open>
  Claim C3. In \<open>Shade\<close> the contribution of a light is skipped if and only if the
  intersection routine, run on the shadow ray, reports a hit and the distance of that
  hit is less than the distance from the shaded point to the light. A skipped light
  leaves \<open>color\<close> as it was, any other light adds its diffuse and specular terms,
  and a hit at or beyond the distance of the light does not shadow.
\<close>

theorem shade_light_shadow:
  "(shade_light S m p nrm view l = None) =
     (snd (IntersectRay S h (shadowRay S p nrm l)) \<and>
      hit_t (fst (IntersectRay S h (shadowRay S p nrm l))) < distanceToLight p l) \<and>
   light_step S m p nrm view color l =
     (if snd (IntersectRay S h (shadowRay S p nrm l)) \<and>
         hit_t (fst (IntersectRay S h (shadowRay S p nrm l))) < distanceToLight p l
      then color
      else color + (diffuse S m p nrm l + specular S m p nrm view l)) \<and>
   (distanceToLight p l \<le> hit_t (fst (IntersectRay S h (shadowRay S p nrm l))) \<longrightarrow>
      shade_light S m p nrm view l = Some (diffuse S m p nrm l + specular S m p nrm view l))"
  using IntersectRay_indep [of S h "shadowRay S p nrm l" "uninit S"]
  by (simp add: light_step_def shade_light_def Let_def)

text \<open>
  Above the one-sphere scene the light at \<open>(0, 0, 2)\<close> is in front of the sphere and
  is not skipped; the light at \<open>(0, 0, -5)\<close> is behind the sphere and is skipped.
\<close>

theorem shade_light_shadow_witness:
  "snd (IntersectRay scene_one blank_hit
          (shadowRay scene_one (Vec3 0 0 3) (Vec3 0 0 1) back_light)) \<and>
   distanceToLight (Vec3 0 0 3) back_light
     \<le> hit_t (fst (IntersectRay scene_one blank_hit
                     (shadowRay scene_one (Vec3 0 0 3) (Vec3 0 0 1) back_light))) \<and>
   shade_light scene_one gloss_10 (Vec3 0 0 3) (Vec3 0 0 1) side_view back_light \<noteq> None \<and>
   hit_t (fst (IntersectRay scene_one blank_hit
                 (shadowRay scene_one (Vec3 0 0 3) (Vec3 0 0 1) hidden_light)))
     < distanceToLight (Vec3 0 0 3) hidden_light \<and>
   shade_light scene_one gloss_10 (Vec3 0 0 3) (Vec3 0 0 1) side_view hidden_light = None"
proof -
  have far: "distanceToLight (Vec3 0 0 3) back_light
     \<le> hit_t (fst (IntersectRay scene_one blank_hit
                     (shadowRay scene_one (Vec3 0 0 3) (Vec3 0 0 1) back_light)))"
    by (simp add: back_shadow back_distance)
  have found: "snd (IntersectRay scene_one blank_hit
          (shadowRay scene_one (Vec3 0 0 3) (Vec3 0 0 1) hidden_light))"
    by (simp add: hidden_shadow)
  have near: "hit_t (fst (IntersectRay scene_one blank_hit
                 (shadowRay scene_one (Vec3 0 0 3) (Vec3 0 0 1) hidden_light)))
     < distanceToLight (Vec3 0 0 3) hidden_light"
    by (simp add: hidden_shadow hidden_distance)
  from shade_light_shadow [of scene_one gloss_10 "Vec3 0 0 3" "Vec3 0 0 1" side_view
      back_light blank_hit] far
  have lit: "shade_light scene_one gloss_10 (Vec3 0 0 3) (Vec3 0 0 1) side_view back_light
               \<noteq> None"
    by simp
  from shade_light_shadow [of scene_one gloss_10 "Vec3 0 0 3" "Vec3 0 0 1" side_view
      hidden_light blank_hit] found near
  have dark: "shade_light scene_one gloss_10 (Vec3 0 0 3) (Vec3 0 0 1) side_view hidden_light
                = None"
    by simp
  show ?thesis using far near lit dark by (simp add: back_shadow)
qed

text \<open>
  Claim C7, as the code has it. A light that is not skipped and whose direction fails
  both dot-product tests, \<open>dot(normal, lightDir) \<le> 0\<close> and
  \<open>dot(normal, halfVector) \<le> 0\<close>, contributes exactly zero through the two
  \<open>max(..., 0)\<close> clamps, for every material with specular exponent \<open>n > 0\<close>.
\<close>

theorem facing_away_zero:
  assumes "dot nrm (lightDir S p l) \<le> 0"
    and "dot nrm (halfVector S p view l) \<le> 0"
    and "0 < n_exp m"
  shows "diffuse S m p nrm l = Vec3 0 0 0 \<and>
         specular S m p nrm view l = Vec3 0 0 0 \<and>
         light_step S m p nrm view color l = color"
proof -
  have d: "diffuse S m p nrm l = Vec3 0 0 0"
    using assms(1) by (simp add: diffuse_def Let_def max_def)
  have s: "specular S m p nrm view l = Vec3 0 0 0"
    using assms(2) assms(3) by (simp add: specular_def Let_def max_def pow_zero_base)
  have "light_step S m p nrm view color l = color"
    by (simp add: light_step_def shade_light_def Let_def d s)
  then show ?thesis using d s by simp
qed


text \<open>The light behind the surface, seen from the side, with exponent \<open>10\<close>.\<close>

theorem facing_away_zero_witness:
  "dot (Vec3 0 0 1) (lightDir scene_one (Vec3 0 0 3) back_light) \<le> 0 \<and>
   dot (Vec3 0 0 1) (halfVector scene_one (Vec3 0 0 3) side_view back_light) \<le> 0 \<and>
   0 < n_exp gloss_10 \<and>
   shade_light scene_one gloss_10 (Vec3 0 0 3) (Vec3 0 0 1) side_view back_light
     = Some (Vec3 0 0 0)"
proof -
  have a: "dot (Vec3 0 0 1) (lightDir scene_one (Vec3 0 0 3) back_light) \<le> 0"
    by (simp add: back_lightDir dot_def)
  have b: "dot (Vec3 0 0 1) (halfVector scene_one (Vec3 0 0 3) side_view back_light) \<le> 0"
    by (simp add: back_half dot_def)
  have c: "0 < n_exp gloss_10" by (simp add: gloss_10_def)
  from facing_away_zero [OF a b c] show ?thesis
    using a b c by (simp add: back_unshadowed plus_vec3_def)
qed

text \<open>
  The claim as stated includes the exponent \<open>n = 0\<close>. There the specular term is
  \<open>k_s * intensity * pow(0, 0)\<close>, and \<open>pow(0, 0)\<close> is not zero: the language leaves
  it open, and on a platform that returns \<open>1\<close> the same light adds \<open>(1, 1, 1)\<close>.
\<close>

theorem zero_exponent_counterexample:
  "dot (Vec3 0 0 1) (lightDir scene_one (Vec3 0 0 3) back_light) \<le> 0 \<and>
   dot (Vec3 0 0 1) (halfVector scene_one (Vec3 0 0 3) side_view back_light) \<le> 0 \<and>
   0 \<le> n_exp gloss_0 \<and>
   shade_light scene_one gloss_0 (Vec3 0 0 3) (Vec3 0 0 1) side_view back_light
     = Some (Vec3 1 1 1)"
proof (intro conjI)
  show "dot (Vec3 0 0 1) (lightDir scene_one (Vec3 0 0 3) back_light) \<le> 0"
    by (simp add: back_lightDir dot_def)
  show "dot (Vec3 0 0 1) (halfVector scene_one (Vec3 0 0 3) side_view back_light) \<le> 0"
    by (simp add: back_half dot_def)
  show "0 \<le> n_exp gloss_0" by (simp add: gloss_0_def)
  have d: "diffuse scene_one gloss_0 (Vec3 0 0 3) (Vec3 0 0 1) back_light = Vec3 0 0 0"
    by (simp add: diffuse_def back_lightDir dot_def Let_def)
  have s: "specular scene_one gloss_0 (Vec3 0 0 3) (Vec3 0 0 1) side_view back_light
             = Vec3 1 1 1"
    by (simp add: specular_def back_half dot_def Let_def gloss_0_def one_pow_open
        back_intensity times_vec3_def scale_def)
  show "shade_light scene_one gloss_0 (Vec3 0 0 3) (Vec3 0 0 1) side_view back_light
     = Some (Vec3 1 1 1)"
    by (simp add: back_unshadowed d s plus_vec3_def)
qed

section \<open>The claims about RayTracer\<close>

subsection \<open>Evaluating the two-mirror scene\<close>

text \<open>
  The primary ray hits the first mirror at \<open>(0, 0, 1)\<close>, the reflection ray \<open>ray_1\<close>
  hits the second at \<open>(0, 0, 9)\<close>, and its reflection \<open>ray_2\<close> comes back to the
  first. None of this depends on the bounce limit.
\<close>

lemma two_primary:
  "IntersectRay (scene_two\<lparr>bounceLimit := bl\<rparr>) blank_hit front_ray = (hit_a, True)"
  by (simp add: IntersectRay_def scene_two_def sphere_step_def sentinel_def eval_defs
      front_ray_def mirror_a_def mirror_b_def hit_a_def)

lemma two_refl_1: "reflection_ray front_ray hit_a = ray_1"
  by (simp add: reflection_ray_def reflect_def vec_defs front_ray_def hit_a_def ray_1_def)

lemma two_bounce_1:
  "IntersectRay (scene_two\<lparr>bounceLimit := bl\<rparr>) blank_hit ray_1 = (hit_b, True)"
  by (simp add: IntersectRay_def scene_two_def sphere_step_def sentinel_def eval_defs
      ray_1_def mirror_a_def mirror_b_def hit_b_def)

lemma two_refl_2: "reflection_ray ray_1 hit_b = ray_2"
  by (simp add: reflection_ray_def reflect_def vec_defs ray_1_def hit_b_def ray_2_def)

lemma two_bounce_2: "snd (IntersectRay (scene_two\<lparr>bounceLimit := bl\<rparr>) blank_hit ray_2)"
  by (simp add: IntersectRay_def scene_two_def sphere_step_def sentinel_def eval_defs
      ray_2_def mirror_a_def mirror_b_def)

lemma two_same: "scene_two\<lparr>bounceLimit := 2\<rparr> = scene_two"
  by (simp add: scene_two_def)

lemma two_uninit: "uninit scene_two = blank_hit"
  and two_limits: "bounceLimit scene_two = 2" "MAX_BOUNCES scene_two = 5"
  by (simp_all add: scene_two_def)

lemma two_sums:
  "channel_sum (k_s (hit_mtl hit_a)) = 1" "channel_sum (k_s (hit_mtl hit_b)) = 1"
  "k_s (hit_mtl hit_a) * k_s (hit_mtl hit_b) = Vec3 0 0 0"
  by (simp_all add: channel_sum_def hit_a_def hit_b_def mirror_a_def mirror_b_def times_vec3_def)

subsection \<open>The number of iterations\<close>

lemma reflect_loop_bound:
  "int (snd (reflect_loop S bounce ray hit ks clr))
     \<le> max 0 (min (bounceLimit S) (MAX_BOUNCES S) - bounce)"
proof (induction S bounce ray hit ks clr rule: reflect_loop.induct)
  case (1 S bounce ray hit ks clr)
  show ?case
  proof (cases "bounce < MAX_BOUNCES S \<and> \<not> bounceLimit S \<le> bounce \<and>
                \<not> channel_sum (k_s (hit_mtl hit)) \<le> 0")
    case False
    then show ?thesis by (subst reflect_loop.simps) auto
  next
    case go: True
    show ?thesis
    proof (cases "snd (IntersectRay S (uninit S) (reflection_ray ray hit))")
      case False
      then show ?thesis using go by (subst reflect_loop.simps) (auto simp: Let_def)
    next
      case True
      let ?r = "reflection_ray ray hit"
      let ?h = "fst (IntersectRay S (uninit S) ?r)"
      let ?c = "Shade S (hit_mtl ?h) (hit_position ?h) (hit_normal ?h) (normalize_vec S (- dir ?r))"
      from "1.IH" [OF _ _ _ refl refl refl True refl refl] go
      have "int (snd (reflect_loop S (bounce + 1) ?r ?h (ks * k_s (hit_mtl ?h)) (clr + ks * ?c)))
          \<le> max 0 (min (bounceLimit S) (MAX_BOUNCES S) - (bounce + 1))"
        by simp
      then show ?thesis using go True
        by (subst reflect_loop.simps) (auto simp: Let_def)
    qed
  qed
qed

lemma reflect_loop_at_limit:
  "bounceLimit S \<le> bounce \<Longrightarrow> reflect_loop S bounce ray hit ks clr = (clr, 0)"
  by (subst reflect_loop.simps) simp

text \<open>
  With the running attenuation at \<open>(0, 0, 0)\<close> every later term \<open>k_s * ...\<close> is
  zero, so the loop returns the \<open>clr\<close> it was entered with, however many
  iterations it still runs.
\<close>

lemma nonneg_sum_zero: "nonneg v \<Longrightarrow> channel_sum v \<le> 0 \<Longrightarrow> v = Vec3 0 0 0"
  by (cases v) (simp add: nonneg_def channel_sum_def)

lemma times_zero_left [simp]: "Vec3 0 0 0 * v = Vec3 0 0 0"
  by (simp add: times_vec3_def)

lemma exhausted_keeps_clr:
  "fst (reflect_loop S bounce ray hit (Vec3 0 0 0) clr) = clr"
proof (induction "nat (MAX_BOUNCES S - bounce)" arbitrary: bounce ray hit)
  case 0
  then show ?case by (subst reflect_loop.simps) simp
next
  case (Suc k)
  then have k: "k = nat (MAX_BOUNCES S - (bounce + 1))" by simp
  show ?case
    by (subst reflect_loop.simps) (simp add: Let_def Suc.hyps(1) [OF k])
qed

text \<open>
  Claim C2. \<open>RayTracer\<close> returns alpha \<open>1\<close> if the primary ray hits a sphere and
  alpha \<open>0\<close> otherwise, and when no sphere is hit the returned RGB is the environment
  colour looked up along the ray direction, which the shader does with
  \<open>textureCube(envMap, ray.dir.xzy)\<close>. Whether the primary ray hits is what
  \<open>IntersectRay\<close> returns for it, whatever \<open>HitInfo\<close> it is called with: true
  exactly when some sphere has a positive candidate below the sentinel.
\<close>

theorem RayTracer_alpha:
  "(snd (IntersectRay S h ray) \<longrightarrow> alpha (RayTracer S ray) = 1) \<and>
   (\<not> snd (IntersectRay S h ray) \<longrightarrow>
      alpha (RayTracer S ray) = 0 \<and> rgb (RayTracer S ray) = envMap S (xzy (dir ray))) \<and>
   (snd (IntersectRay S h ray) \<longleftrightarrow>
      (\<exists>s\<in>set (spheres S). \<exists>tc. candidate S ray s = Some tc \<and> 0 < tc \<and> tc < sentinel))"
  using IntersectRay_indep [of S h ray "uninit S"] IntersectRay_found_iff [of S h ray]
  by (simp add: RayTracer_def Let_def)


text \<open>In the one-sphere scene, the ray towards the sphere and the ray away from it.\<close>

theorem RayTracer_alpha_witness:
  "snd (IntersectRay scene_one blank_hit front_ray) \<and>
   alpha (RayTracer scene_one front_ray) = 1 \<and>
   \<not> snd (IntersectRay scene_one blank_hit away_ray) \<and>
   alpha (RayTracer scene_one away_ray) = 0 \<and>
   rgb (RayTracer scene_one away_ray) = Vec3 (1 / 2) (1 / 2) (1 / 2)"
proof -
  have f: "snd (IntersectRay scene_one blank_hit front_ray)"
    by (simp add: front_hit)
  have m: "\<not> snd (IntersectRay scene_one blank_hit away_ray)"
    by (simp add: away_miss)
  from RayTracer_alpha [of scene_one blank_hit front_ray] f
  have a1: "alpha (RayTracer scene_one front_ray) = 1" by simp
  from RayTracer_alpha [of scene_one blank_hit away_ray] m
  have a0: "alpha (RayTracer scene_one away_ray) = 0 \<and>
            rgb (RayTracer scene_one away_ray) = envMap scene_one (xzy (dir away_ray))"
    by simp
  show ?thesis using f m a1 a0 by (simp add: scene_one_def)
qed

text \<open>
  Claim C4, as the code has it. The second \<open>break\<close> at the head of the loop body
  tests the specular coefficient of the material of the current hit,
  \<open>hit.mtl.k_s\<close>, not the running attenuation \<open>k_s\<close>: once the channels of
  \<open>hit.mtl.k_s\<close> sum to at most zero the loop ends there, no further reflection ray
  is traced and \<open>clr\<close> is returned as it stands. Once the running attenuation, with
  components at least zero, sums to at most zero, accumulation has stopped: the loop
  may run further iterations, and returns the \<open>clr\<close> it had at that point.
\<close>

theorem absorbed_stops:
  "(channel_sum (k_s (hit_mtl hit)) \<le> 0 \<longrightarrow>
      reflect_loop S bounce ray hit ks clr = (clr, 0)) \<and>
   (nonneg ks \<and> channel_sum ks \<le> 0 \<longrightarrow>
      fst (reflect_loop S bounce ray hit ks clr) = clr)"
proof (intro conjI impI)
  assume "channel_sum (k_s (hit_mtl hit)) \<le> 0"
  then show "reflect_loop S bounce ray hit ks clr = (clr, 0)"
    by (subst reflect_loop.simps) simp
next
  assume "nonneg ks \<and> channel_sum ks \<le> 0"
  then have "ks = Vec3 0 0 0" by (simp add: nonneg_sum_zero)
  then show "fst (reflect_loop S bounce ray hit ks clr) = clr"
    by (simp add: exhausted_keeps_clr)
qed

text \<open>
  The matte sphere of the one-sphere scene, with a bounce limit of two; and the
  two-mirror scene after the first bounce, where the running attenuation is
  \<open>(0, 0, 0)\<close>.
\<close>

theorem absorbed_stops_witness:
  "channel_sum (k_s (hit_mtl (fst (IntersectRay scene_one blank_hit front_ray)))) \<le> 0 \<and>
   reflect_loop (scene_one\<lparr>bounceLimit := 2\<rparr>) 0 front_ray
       (fst (IntersectRay scene_one blank_hit front_ray)) (Vec3 0 0 0) (Vec3 1 0 0)
     = (Vec3 1 0 0, 0) \<and>
   nonneg (k_s (hit_mtl hit_a) * k_s (hit_mtl hit_b)) \<and>
   channel_sum (k_s (hit_mtl hit_a) * k_s (hit_mtl hit_b)) \<le> 0 \<and>
   fst (reflect_loop scene_two 1 ray_1 hit_b (k_s (hit_mtl hit_a) * k_s (hit_mtl hit_b)) clr_1)
     = clr_1"
proof -
  have z: "channel_sum (k_s (hit_mtl (fst (IntersectRay scene_one blank_hit front_ray)))) \<le> 0"
    by (simp add: front_hit matte_red_def channel_sum_def)
  have n: "nonneg (k_s (hit_mtl hit_a) * k_s (hit_mtl hit_b))"
    and c: "channel_sum (k_s (hit_mtl hit_a) * k_s (hit_mtl hit_b)) \<le> 0"
    by (simp_all add: two_sums nonneg_def channel_sum_def)
  from absorbed_stops [of "fst (IntersectRay scene_one blank_hit front_ray)"
      "scene_one\<lparr>bounceLimit := 2\<rparr>" 0 front_ray "Vec3 0 0 0" "Vec3 1 0 0"] z
  have a: "reflect_loop (scene_one\<lparr>bounceLimit := 2\<rparr>) 0 front_ray
       (fst (IntersectRay scene_one blank_hit front_ray)) (Vec3 0 0 0) (Vec3 1 0 0)
     = (Vec3 1 0 0, 0)"
    by blast
  from absorbed_stops [of hit_b scene_two 1 ray_1
      "k_s (hit_mtl hit_a) * k_s (hit_mtl hit_b)" clr_1] n c
  have b: "fst (reflect_loop scene_two 1 ray_1 hit_b
                  (k_s (hit_mtl hit_a) * k_s (hit_mtl hit_b)) clr_1) = clr_1"
    by blast
  show ?thesis using z a n c b by blast
qed

text \<open>
  The claim as stated has the loop end once the running attenuation sums to at most
  zero. In the two-mirror scene the primary hit is on the red mirror and the first
  bounce on the green one, so after the first iteration the running attenuation is
  \<open>(1,0,0) * (0,1,0) = (0,0,0)\<close>, with channel sum \<open>0\<close>. The loop is then at
  \<open>bounce = 1\<close> with the loop variables \<open>ray_1\<close>, \<open>hit_b\<close>, \<open>(0,0,0)\<close> and
  \<open>clr_1\<close>; it does not stop, because \<open>hit.mtl.k_s = (0,1,0)\<close>, and traces one
  more reflection ray.
\<close>


theorem running_attenuation_counterexample:
  "IntersectRay scene_two (uninit scene_two) front_ray = (hit_a, True) \<and>
   reflect_loop scene_two 0 front_ray hit_a (k_s (hit_mtl hit_a)) clr_0 =
     apsnd Suc (reflect_loop scene_two 1 ray_1 hit_b (Vec3 0 0 0) clr_1) \<and>
   channel_sum (Vec3 0 0 0) \<le> 0 \<and>
   snd (reflect_loop scene_two 1 ray_1 hit_b (Vec3 0 0 0) clr_1) = 1"
proof (intro conjI)
  note ev = two_primary [of 2] two_bounce_1 [of 2] two_bounce_2 [of 2]
  note ev2 = ev [unfolded two_same] two_uninit
  show "IntersectRay scene_two (uninit scene_two) front_ray = (hit_a, True)"
    by (simp add: ev2)
  show "reflect_loop scene_two 0 front_ray hit_a (k_s (hit_mtl hit_a)) clr_0 =
     apsnd Suc (reflect_loop scene_two 1 ray_1 hit_b (Vec3 0 0 0) clr_1)"
    by (subst reflect_loop.simps)
       (simp add: two_limits two_sums ev2 two_refl_1 clr_1_def Let_def)
  show "channel_sum (Vec3 0 0 0) \<le> 0" by (simp add: channel_sum_def)
  have last: "reflect_loop scene_two 2 ray_2 h ks clr = (clr, 0)" for h ks clr
    by (subst reflect_loop.simps) (simp add: two_limits)
  show "snd (reflect_loop scene_two 1 ray_1 hit_b (Vec3 0 0 0) clr_1) = 1"
    by (subst reflect_loop.simps)
       (simp add: two_limits two_sums ev2 two_refl_2 last Let_def)
qed

text \<open>
  Claim C6. For a bounce limit of at least zero (and \<open>MAX_BOUNCES\<close>, a loop bound,
  at least zero) the reflection loop traces at most
  \<open>min(bounceLimit, MAX_BOUNCES)\<close> reflection rays, from whatever hit, attenuation
  and colour it starts. With a bounce limit of zero \<open>RayTracer\<close> returns, for a
  primary ray that hits, exactly the colour \<open>Shade\<close> gives the primary hit, with
  alpha \<open>1\<close> and nothing added, whatever the material.
\<close>

theorem bounce_limit:
  assumes "0 \<le> bounceLimit S" "0 \<le> MAX_BOUNCES S"
  shows "int (snd (reflect_loop S 0 ray hit ks clr)) \<le> min (bounceLimit S) (MAX_BOUNCES S) \<and>
         (bounceLimit S = 0 \<and> snd (IntersectRay S (uninit S) ray) \<longrightarrow>
            RayTracer S ray =
              \<lparr> rgb = Shade S (hit_mtl (fst (IntersectRay S (uninit S) ray)))
                       (hit_position (fst (IntersectRay S (uninit S) ray)))
                       (hit_normal (fst (IntersectRay S (uninit S) ray)))
                       (normalize_vec S (- dir ray)),
                alpha = 1 \<rparr>)"
proof
  show "int (snd (reflect_loop S 0 ray hit ks clr)) \<le> min (bounceLimit S) (MAX_BOUNCES S)"
    using reflect_loop_bound [of S 0 ray hit ks clr] assms by simp
  show "bounceLimit S = 0 \<and> snd (IntersectRay S (uninit S) ray) \<longrightarrow>
            RayTracer S ray =
              \<lparr> rgb = Shade S (hit_mtl (fst (IntersectRay S (uninit S) ray)))
                       (hit_position (fst (IntersectRay S (uninit S) ray)))
                       (hit_normal (fst (IntersectRay S (uninit S) ray)))
                       (normalize_vec S (- dir ray)),
                alpha = 1 \<rparr>"
    by (simp add: RayTracer_def Let_def reflect_loop_at_limit)
qed

text \<open>
  The two-mirror scene with the bounce limit set to zero: the first mirror is
  specular, and the result is its direct shading alone.
\<close>

theorem bounce_limit_witness:
  "0 \<le> bounceLimit (scene_two\<lparr>bounceLimit := 0\<rparr>) \<and>
   0 \<le> MAX_BOUNCES (scene_two\<lparr>bounceLimit := 0\<rparr>) \<and>
   snd (IntersectRay (scene_two\<lparr>bounceLimit := 0\<rparr>)
          (uninit (scene_two\<lparr>bounceLimit := 0\<rparr>)) front_ray) \<and>
   0 < channel_sum (k_s (hit_mtl hit_a)) \<and>
   snd (reflect_loop (scene_two\<lparr>bounceLimit := 0\<rparr>) 0 front_ray hit_a
          (k_s (hit_mtl hit_a)) (Vec3 0 0 0)) = 0 \<and>
   RayTracer (scene_two\<lparr>bounceLimit := 0\<rparr>) front_ray =
     \<lparr> rgb = Shade (scene_two\<lparr>bounceLimit := 0\<rparr>) (hit_mtl hit_a) (hit_position hit_a)
               (hit_normal hit_a)
               (normalize_vec (scene_two\<lparr>bounceLimit := 0\<rparr>) (- dir front_ray)),
       alpha = 1 \<rparr>"
proof -
  have h1: "0 \<le> bounceLimit (scene_two\<lparr>bounceLimit := 0\<rparr>)" by simp
  have h2: "0 \<le> MAX_BOUNCES (scene_two\<lparr>bounceLimit := 0\<rparr>)"
    by (simp add: scene_two_def)
  have f: "snd (IntersectRay (scene_two\<lparr>bounceLimit := 0\<rparr>)
                  (uninit (scene_two\<lparr>bounceLimit := 0\<rparr>)) front_ray)"
    by (simp add: two_uninit two_primary)
  have z: "bounceLimit (scene_two\<lparr>bounceLimit := 0\<rparr>) = 0" by simp
  from bounce_limit [OF h1 h2, of front_ray hit_a "k_s (hit_mtl hit_a)" "Vec3 0 0 0"]
  have "snd (reflect_loop (scene_two\<lparr>bounceLimit := 0\<rparr>) 0 front_ray hit_a
               (k_s (hit_mtl hit_a)) (Vec3 0 0 0)) = 0 \<and>
        RayTracer (scene_two\<lparr>bounceLimit := 0\<rparr>) front_ray =
          \<lparr> rgb = Shade (scene_two\<lparr>bounceLimit := 0\<rparr>) (hit_mtl hit_a) (hit_position hit_a)
               (hit_normal hit_a)
               (normalize_vec (scene_two\<lparr>bounceLimit := 0\<rparr>) (- dir front_ray)),
            alpha = 1 \<rparr>"
    using f z by (simp add: two_uninit two_primary)
  then show ?thesis using h1 h2 f by (simp add: two_sums)
qed

end
